theory Spec2Isabelle
  imports Complex_Main
begin

section \<open>Numbers\<close>

text \<open>
  Both programs compute with JavaScript numbers. The model idealises them as
  reals: every arithmetic operation is exact, and \<open>NaN\<close> and the infinities
  do not occur. \<open>Math.sign\<close> is \<^const>\<open>sgn\<close>, \<open>Math.abs\<close> is \<^const>\<open>abs\<close>.
  \<open>Math.random()\<close> is an input of the step that draws it, a real \<open>r\<close> with
  \<open>0 \<le> r < 1\<close>. Rendering and audio calls do not touch the game state and are
  left out.
\<close>

definition is_random :: "real \<Rightarrow> bool" where
  "is_random r = (0 \<le> r \<and> r < 1)"


section \<open>The single-player game (\<open>src/main.ts\<close>, class \<open>TennisGame\<close>)\<close>

subsection \<open>State\<close>

text \<open>
  \<open>vec3\<close> is the \<open>{x, y, z}\<close> of a mesh position and of \<open>ballSpeed\<close>. The
  court's long axis is \<open>x\<close> (paddles at \<open>x = -9\<close> and \<open>x = 9\<close>), the lateral
  axis is \<open>z\<close>.
\<close>

record vec3 =
  vx :: real
  vy :: real
  vz :: real

record score_board =
  player :: nat
  ai :: nat

text \<open>
  \<open>keys\<close> is the object \<open>{ [key: string]: boolean }\<close>; a key that was never
  written reads \<open>undefined\<close>, which every use treats as false.
\<close>

record tennis_game =
  ball :: vec3
  paddle1 :: vec3
  paddle2 :: vec3
  ballSpeed :: vec3
  score :: score_board
  keys :: "string \<Rightarrow> bool"
  ballInPlay :: bool
  instruction :: string
  lastAiTarget :: real

definition paddleSpeed :: real where
  "paddleSpeed = 0.3"

definition aiSpeed :: real where
  "aiSpeed = 0.15"

definition paddleHitbox :: real where
  "paddleHitbox = 0.8"

definition maxSpeed :: real where
  "maxSpeed = 0.35"

definition minSpeed :: real where
  "minSpeed = 0.15"

definition maxVerticalSpeed :: real where
  "maxVerticalSpeed = maxSpeed * 0.6"

text \<open>
  The lateral limits the paddle code tests and clamps against (\<open>-4\<close> and \<open>4\<close>,
  ``court boundaries'' in the source's comment).
\<close>

definition courtMin :: real where
  "courtMin = -4"

definition courtMax :: real where
  "courtMax = 4"

subsection \<open>Serve and reset\<close>

definition resetBall :: "tennis_game \<Rightarrow> tennis_game" where
  "resetBall s =
     s\<lparr>ball := \<lparr>vx = -8, vy = 1, vz = vz (paddle1 s)\<rparr>,
       ballSpeed := (ballSpeed s)\<lparr>vx := 0, vz := 0\<rparr>,
       ballInPlay := False,
       instruction := ''Press SPACE to serve''\<rparr>"

definition launchBall :: "real \<Rightarrow> tennis_game \<Rightarrow> tennis_game" where
  "launchBall r s =
     (if \<not> ballInPlay s
      then s\<lparr>ballInPlay := True,
             ballSpeed := (ballSpeed s)\<lparr>vx := 0.2, vz := (r - 0.5) * 0.15\<rparr>,
             instruction := ''''\<rparr>
      else s)"

subsection \<open>\<open>updatePaddles\<close>\<close>

text \<open>Player 1 controls: the two guarded steps, left first.\<close>

definition movePlayer :: "tennis_game \<Rightarrow> tennis_game" where
  "movePlayer s =
     (let moveLeft = (keys s ''a'' \<or> keys s ''arrowleft'');
          moveRight = (keys s ''d'' \<or> keys s ''arrowright'');
          s1 = (if moveLeft \<and> vz (paddle1 s) > -4
                then s\<lparr>paddle1 := (paddle1 s)\<lparr>vz := vz (paddle1 s) - paddleSpeed\<rparr>\<rparr>
                else s)
      in if moveRight \<and> vz (paddle1 s1) < 4
         then s1\<lparr>paddle1 := (paddle1 s1)\<lparr>vz := vz (paddle1 s1) + paddleSpeed\<rparr>\<rparr>
         else s1)"

text \<open>If the ball is not in play, it follows the paddle.\<close>

definition followPaddle :: "tennis_game \<Rightarrow> tennis_game" where
  "followPaddle s =
     (if \<not> ballInPlay s
      then s\<lparr>ball := (ball s)\<lparr>vz := vz (paddle1 s)\<rparr>\<rparr>
      else s)"

text \<open>The value of the local \<open>aiTarget\<close> when the smoothing line reads it.\<close>

definition aiTarget :: "tennis_game \<Rightarrow> real" where
  "aiTarget s =
     (if vx (ballSpeed s) > 0
      then (let distanceToAI = \<bar>vx (paddle2 s) - vx (ball s)\<bar>;
                timeToReach = distanceToAI / vx (ballSpeed s)
            in max (-4) (min 4 (vz (ball s) + vz (ballSpeed s) * timeToReach)))
      else vz (ball s) * 0.3)"

text \<open>Smoothing, the capped move towards the smoothed target, and the clamp.\<close>

definition moveAi :: "tennis_game \<Rightarrow> tennis_game" where
  "moveAi s =
     (let s1 = s\<lparr>lastAiTarget := lastAiTarget s * 0.8 + aiTarget s * 0.2\<rparr>;
          targetDiff = lastAiTarget s1 - vz (paddle2 s1);
          moveDirection = sgn targetDiff;
          moveAmount = min \<bar>targetDiff\<bar> aiSpeed;
          s2 = (if \<bar>targetDiff\<bar> > 0.1
                then s1\<lparr>paddle2 := (paddle2 s1)\<lparr>vz := vz (paddle2 s1) + moveDirection * moveAmount\<rparr>\<rparr>
                else s1)
      in s2\<lparr>paddle2 := (paddle2 s2)\<lparr>vz := max (-4) (min 4 (vz (paddle2 s2)))\<rparr>\<rparr>)"

text \<open>
  \<open>r\<close> is the random number \<open>launchBall\<close> draws when the space bar serves.
  The last line is the bookkeeping of the music key; the toggle itself is audio.
\<close>

definition updatePaddles :: "real \<Rightarrow> tennis_game \<Rightarrow> tennis_game" where
  "updatePaddles r s =
     (let s1 = moveAi (followPaddle (movePlayer s));
          s2 = (if keys s1 '' '' \<and> \<not> ballInPlay s1 then launchBall r s1 else s1)
      in s2\<lparr>keys := (keys s2)(''m_last'' := keys s2 ''m'')\<rparr>)"

subsection \<open>\<open>updateBall\<close>\<close>

text \<open>
  The body of \<open>updateBall\<close> after its early return, one definition for each
  block of the source, in the source's order.
\<close>

definition integrateBall :: "tennis_game \<Rightarrow> tennis_game" where
  "integrateBall s =
     s\<lparr>ball := (ball s)\<lparr>vx := vx (ball s) + vx (ballSpeed s),
                           vz := vz (ball s) + vz (ballSpeed s)\<rparr>\<rparr>"

definition playerPaddleCollision :: "tennis_game \<Rightarrow> tennis_game" where
  "playerPaddleCollision s =
     (if vx (ball s) \<le> -8.8 \<and> vx (ball s) \<ge> -9.2 \<and>
         \<bar>vz (ball s) - vz (paddle1 s)\<bar> < paddleHitbox
      then (let hitPosition = (vz (ball s) - vz (paddle1 s)) / paddleHitbox
            in s\<lparr>ballSpeed := (ballSpeed s)\<lparr>vx := \<bar>vx (ballSpeed s)\<bar> * 1.03,
                                             vz := hitPosition * 0.3\<rparr>\<rparr>)
      else s)"

definition aiPaddleCollision :: "tennis_game \<Rightarrow> tennis_game" where
  "aiPaddleCollision s =
     (if vx (ball s) \<ge> 8.8 \<and> vx (ball s) \<le> 9.2 \<and>
         \<bar>vz (ball s) - vz (paddle2 s)\<bar> < paddleHitbox
      then (let hitPosition = (vz (ball s) - vz (paddle2 s)) / paddleHitbox
            in s\<lparr>ballSpeed := (ballSpeed s)\<lparr>vx := - \<bar>vx (ballSpeed s)\<bar> * 1.03,
                                             vz := hitPosition * 0.3\<rparr>\<rparr>)
      else s)"

text \<open>\<open>r\<close> is the random number of the perturbation.\<close>

definition courtBoundaries :: "real \<Rightarrow> tennis_game \<Rightarrow> tennis_game" where
  "courtBoundaries r s =
     (if vz (ball s) > 5 \<or> vz (ball s) < -5
      then (let s1 = s\<lparr>ballSpeed := (ballSpeed s)\<lparr>vz := - vz (ballSpeed s) * 0.9\<rparr>\<rparr>
            in s1\<lparr>ballSpeed := (ballSpeed s1)\<lparr>vz := vz (ballSpeed s1) + (r - 0.5) * 0.05\<rparr>\<rparr>)
      else s)"

definition normalizeHorizontal :: "tennis_game \<Rightarrow> tennis_game" where
  "normalizeHorizontal s =
     (if \<bar>vx (ballSpeed s)\<bar> > maxSpeed
      then s\<lparr>ballSpeed := (ballSpeed s)\<lparr>vx := sgn (vx (ballSpeed s)) * maxSpeed\<rparr>\<rparr>
      else if \<bar>vx (ballSpeed s)\<bar> < minSpeed
      then s\<lparr>ballSpeed := (ballSpeed s)\<lparr>vx := sgn (vx (ballSpeed s)) * minSpeed\<rparr>\<rparr>
      else s)"

definition normalizeVertical :: "tennis_game \<Rightarrow> tennis_game" where
  "normalizeVertical s =
     (if \<bar>vz (ballSpeed s)\<bar> > maxVerticalSpeed
      then s\<lparr>ballSpeed := (ballSpeed s)\<lparr>vz := sgn (vz (ballSpeed s)) * maxVerticalSpeed\<rparr>\<rparr>
      else s)"

definition drag :: "tennis_game \<Rightarrow> tennis_game" where
  "drag s = s\<lparr>ballSpeed := (ballSpeed s)\<lparr>vz := vz (ballSpeed s) * 0.98\<rparr>\<rparr>"

definition scoring :: "tennis_game \<Rightarrow> tennis_game" where
  "scoring s =
     (if vx (ball s) > 10
      then resetBall (s\<lparr>score := (score s)\<lparr>player := player (score s) + 1\<rparr>\<rparr>)
      else if vx (ball s) < -10
      then resetBall (s\<lparr>score := (score s)\<lparr>ai := ai (score s) + 1\<rparr>\<rparr>)
      else s)"

definition updateBall :: "real \<Rightarrow> tennis_game \<Rightarrow> tennis_game" where
  "updateBall r s =
     (if \<not> ballInPlay s then s
      else scoring (drag (normalizeVertical (normalizeHorizontal
             (courtBoundaries r (aiPaddleCollision (playerPaddleCollision
               (integrateBall s))))))))"

subsection \<open>The frame loop and the key listeners\<close>

text \<open>
  One frame: \<open>updatePaddles\<close>, then \<open>updateBall\<close>. \<open>r1\<close> is the random
  number of a serve, \<open>r2\<close> that of a wall bounce.
\<close>

definition animate :: "real \<Rightarrow> real \<Rightarrow> tennis_game \<Rightarrow> tennis_game" where
  "animate r1 r2 s = updateBall r2 (updatePaddles r1 s)"

text \<open>The listeners store under \<open>e.key.toLowerCase()\<close>; \<open>k\<close> is that string.\<close>

definition keydown :: "string \<Rightarrow> tennis_game \<Rightarrow> tennis_game" where
  "keydown k s = s\<lparr>keys := (keys s)(k := True)\<rparr>"

definition keyup :: "string \<Rightarrow> tennis_game \<Rightarrow> tennis_game" where
  "keyup k s = s\<lparr>keys := (keys s)(k := False)\<rparr>"

text \<open>
  The state the constructor leaves: paddles at \<open>(-9, 1, 0)\<close> and \<open>(9, 1, 0)\<close>,
  the ball created at height 1, and \<open>resetBall\<close> called once.
\<close>

definition constructed :: tennis_game where
  "constructed =
     resetBall
       \<lparr>ball = \<lparr>vx = 0, vy = 1, vz = 0\<rparr>,
        paddle1 = \<lparr>vx = -9, vy = 1, vz = 0\<rparr>,
        paddle2 = \<lparr>vx = 9, vy = 1, vz = 0\<rparr>,
        ballSpeed = \<lparr>vx = 0, vy = 0, vz = 0\<rparr>,
        score = \<lparr>player = 0, ai = 0\<rparr>,
        keys = (\<lambda>k. False),
        ballInPlay = False,
        instruction = '''',
        lastAiTarget = 0\<rparr>"

text \<open>The states of a game: frames and key events from the constructed state.\<close>

inductive reachable :: "tennis_game \<Rightarrow> bool" where
  start: "reachable constructed"
| frame: "reachable s \<Longrightarrow> is_random r1 \<Longrightarrow> is_random r2 \<Longrightarrow> reachable (animate r1 r2 s)"
| down: "reachable s \<Longrightarrow> reachable (keydown k s)"
| up: "reachable s \<Longrightarrow> reachable (keyup k s)"

text \<open>\<open>n\<close> frames in a row, every random draw being 0.\<close>

fun frames :: "nat \<Rightarrow> tennis_game \<Rightarrow> tennis_game" where
  "frames 0 s = s"
| "frames (Suc n) s = frames n (animate 0 0 s)"

subsection \<open>Example states\<close>

text \<open>The state after the first serve: space held for one frame.\<close>

definition served :: tennis_game where
  "served = animate 0.5 0 (keydown '' '' constructed)"

text \<open>A rally: the ball at mid-court, moving towards the AI side and sideways.\<close>

definition rally :: tennis_game where
  "rally = served\<lparr>ball := \<lparr>vx = 0, vy = 1, vz = 1\<rparr>,
                  ballSpeed := \<lparr>vx = 0.2, vy = 0, vz = 0.1\<rparr>\<rparr>"

text \<open>The \<open>a\<close> key held for fourteen frames from the start.\<close>

definition lefts :: tennis_game where
  "lefts = frames 14 (keydown ''a'' constructed)"

text \<open>The ball one step in front of the player's paddle, flying towards it.\<close>

definition grazed :: tennis_game where
  "grazed = served\<lparr>ball := \<lparr>vx = -8.9, vy = 1, vz = 0\<rparr>,
                   ballSpeed := \<lparr>vx = -0.2, vy = 0, vz = 0\<rparr>\<rparr>"

text \<open>The ball about to cross the far line behind the AI, and the one behind the player.\<close>

definition leaving :: tennis_game where
  "leaving = served\<lparr>ball := \<lparr>vx = 9.9, vy = 1, vz = 3\<rparr>\<rparr>"

definition leaving_back :: tennis_game where
  "leaving_back = served\<lparr>ball := \<lparr>vx = -9.9, vy = 1, vz = 3\<rparr>,
                         ballSpeed := \<lparr>vx = -0.2, vy = 0, vz = 0\<rparr>\<rparr>"


text \<open>The ball one step in front of the AI paddle.\<close>

definition at_net :: tennis_game where
  "at_net = served\<lparr>ball := \<lparr>vx = 8.6, vy = 1, vz = 0.4\<rparr>,
                   ballSpeed := \<lparr>vx = 0.3, vy = 0, vz = 0.1\<rparr>\<rparr>"



section \<open>The networked game (the client script)\<close>

subsection \<open>State\<close>

record paddle =
  p_x :: real
  p_y :: real
  p_dy :: real
  p_speed :: real

record ball2d =
  b_x :: real
  b_y :: real
  b_dx :: real
  b_dy :: real
  b_speed :: real

text \<open>
  The canvas element comes from the page, which is not part of the script; its
  size is a parameter of the model.
\<close>

record canvas_el =
  width :: real
  height :: real

datatype screen = MenuScreen | RoomScreen | WaitingScreen | GameScreen | GameOverScreen

text \<open>
  The payloads of the direct channel after \<open>JSON.parse\<close>. The two scores of
  a ball update are optional because \<open>updateScore\<close> tests them against
  \<open>undefined\<close>.
\<close>

datatype message =
    PaddleMove string real
  | BallUpdate ball2d "int option" "int option"
  | RequestBallUpdate
  | GameOver
  | Other string

text \<open>What \<open>socket.emit\<close> sends to the relay; a room code of \<open>None\<close> is \<open>null\<close>.\<close>

datatype emit =
    CreateGame
  | JoinGame string
  | PlayerReady "string option"
  | WebrtcSignal "string option" string
  | PaddleMoveRelay "string option" real
  | BallMove "string option" ball2d int int
  | RequestBallUpdateRelay "string option"
  | GameOverRelay "string option"
  | RestartGame "string option"

datatype out = Direct message | Relay emit

text \<open>
  The script's globals. \<open>peer\<close> is \<open>None\<close> for \<open>null\<close> and carries the
  initiator flag otherwise; \<open>screen\<close> is the element with class \<open>active\<close>;
  \<open>timers\<close> counts the pending callbacks of \<open>setTimeout\<close>; \<open>sent\<close> is the log of
  \<open>peer.send\<close> and \<open>socket.emit\<close> calls, oldest first. The camera is view state
  and is left out.
\<close>

record client =
  canvas :: canvas_el
  gameActive :: bool
  isHost :: bool
  currentRoomCode :: "string option"
  playerReady :: bool
  opponentReady :: bool
  leftScore :: int
  rightScore :: int
  peer :: "bool option"
  peerConnected :: bool
  useWebRTC :: bool
  leftPaddle :: paddle
  rightPaddle :: paddle
  net_ball :: ball2d
  screen :: screen
  winnerDisplay :: string
  connectionText :: string
  joinError :: string
  timers :: nat
  sent :: "out list"

definition winningScore :: int where
  "winningScore = 10"

definition paddleHeight :: real where
  "paddleHeight = 100"

definition paddleWidth :: real where
  "paddleWidth = 15"

definition ballSize :: real where
  "ballSize = 15"

text \<open>The cap the hit code tests before it speeds the ball up.\<close>

definition speedCap :: real where
  "speedCap = 15"

text \<open>
  The globals as the script initialises them. Which screen the page shows
  first is decided by the page; the model starts on the menu.
\<close>

definition loaded :: "canvas_el \<Rightarrow> client" where
  "loaded cv =
     \<lparr>canvas = cv, gameActive = False, isHost = False, currentRoomCode = None,
      playerReady = False, opponentReady = False, leftScore = 0, rightScore = 0,
      peer = None, peerConnected = False, useWebRTC = True,
      leftPaddle = \<lparr>p_x = 50, p_y = 250, p_dy = 0, p_speed = 8\<rparr>,
      rightPaddle = \<lparr>p_x = 735, p_y = 250, p_dy = 0, p_speed = 8\<rparr>,
      net_ball = \<lparr>b_x = 400, b_y = 300, b_dx = 5, b_dy = 5, b_speed = 5\<rparr>,
      screen = MenuScreen, winnerDisplay = '''', connectionText = '''',
      joinError = '''', timers = 0, sent = []\<rparr>"

subsection \<open>Sending\<close>

text \<open>
  \<open>peer.send\<close> may throw; the exception is caught and nothing else changes, so
  the log records the attempt.
\<close>

definition sendWebRTCMessage :: "message \<Rightarrow> client \<Rightarrow> client" where
  "sendWebRTCMessage m s =
     (if peer s \<noteq> None \<and> peerConnected s then s\<lparr>sent := sent s @ [Direct m]\<rparr> else s)"

definition socket_emit :: "emit \<Rightarrow> client \<Rightarrow> client" where
  "socket_emit e s = s\<lparr>sent := sent s @ [Relay e]\<rparr>"

subsection \<open>Session functions\<close>

definition resetGame :: "client \<Rightarrow> client" where
  "resetGame s = s\<lparr>leftScore := 0, rightScore := 0, gameActive := False\<rparr>"

definition destroyPeer :: "client \<Rightarrow> client" where
  "destroyPeer s =
     (if peer s \<noteq> None then s\<lparr>peer := None, peerConnected := False\<rparr> else s)"

definition backToMenu :: "client \<Rightarrow> client" where
  "backToMenu s =
     destroyPeer
       (resetGame (s\<lparr>screen := MenuScreen, currentRoomCode := None, isHost := False,
                     playerReady := False, opponentReady := False\<rparr>))"

definition showWaitingScreen :: "client \<Rightarrow> client" where
  "showWaitingScreen s = s\<lparr>screen := WaitingScreen\<rparr>"

definition updateScore :: "int option \<Rightarrow> int option \<Rightarrow> client \<Rightarrow> client" where
  "updateScore left right s =
     (let s1 = (case left of None \<Rightarrow> s | Some l \<Rightarrow> s\<lparr>leftScore := l\<rparr>)
      in case right of None \<Rightarrow> s1 | Some r \<Rightarrow> s1\<lparr>rightScore := r\<rparr>)"

text \<open>
  \<open>endGame(message)\<close>; \<open>None\<close> is the call without an argument, and an empty
  string is as falsy as \<open>undefined\<close>.
\<close>

definition endGame :: "string option \<Rightarrow> client \<Rightarrow> client" where
  "endGame message s =
     (let s1 = s\<lparr>gameActive := False\<rparr>;
          byScore = (if leftScore s1 > rightScore s1
                     then ''PLAYER 1 WINS!'' else ''PLAYER 2 WINS!'');
          s2 = s1\<lparr>winnerDisplay :=
                     (case message of
                        None \<Rightarrow> byScore
                      | Some m \<Rightarrow> if m \<noteq> '''' then m else byScore)\<rparr>;
          s3 = s2\<lparr>screen := GameOverScreen\<rparr>
      in if useWebRTC s3 \<and> peerConnected s3
         then sendWebRTCMessage GameOver s3
         else socket_emit (GameOverRelay (currentRoomCode s3)) s3)"

text \<open>
  \<open>initializeWebRTC\<close>: \<open>fails\<close> says that the body of the \<open>try\<close> threw
  (at \<open>new SimplePeer\<close>, before \<open>peer\<close> is assigned).
\<close>

definition initializeWebRTC :: "bool \<Rightarrow> bool \<Rightarrow> client \<Rightarrow> client" where
  "initializeWebRTC isInitiator fails s =
     (if fails
      then s\<lparr>connectionText := ''WebRTC not supported. Using WebSockets.'',
             useWebRTC := False\<rparr>
      else s\<lparr>peer := Some isInitiator,
             connectionText := ''Establishing WebRTC connection...''\<rparr>)"

definition resetGameState :: "real \<Rightarrow> real \<Rightarrow> client \<Rightarrow> client" where
  "resetGameState r1 r2 s =
     s\<lparr>leftPaddle := \<lparr>p_x = 50, p_y = 250, p_dy = 0, p_speed = 8\<rparr>,
       rightPaddle := \<lparr>p_x = 735, p_y = 250, p_dy = 0, p_speed = 8\<rparr>,
       net_ball := \<lparr>b_x = 400, b_y = 300,
                    b_dx = 5 * (if r1 > 0.5 then 1 else -1),
                    b_dy = 5 * (if r2 > 0.5 then 1 else -1),
                    b_speed = 5\<rparr>,
       leftScore := 0, rightScore := 0\<rparr>"

definition startGame :: "real \<Rightarrow> real \<Rightarrow> client \<Rightarrow> client" where
  "startGame r1 r2 s =
     (let s1 = resetGameState r1 r2 (s\<lparr>screen := GameScreen, gameActive := True\<rparr>)
      in if \<not> isHost s1
         then (if useWebRTC s1 \<and> peerConnected s1
               then sendWebRTCMessage RequestBallUpdate s1
               else socket_emit (RequestBallUpdateRelay (currentRoomCode s1)) s1)
         else s1)"

subsection \<open>The simulation step\<close>

text \<open>
  ``Keep paddles within bounds'': the two tests the source applies to each
  paddle, the lower one first.
\<close>

definition keepInBounds :: "canvas_el \<Rightarrow> paddle \<Rightarrow> paddle" where
  "keepInBounds cv p =
     (let p1 = (if p_y p < 0 then p\<lparr>p_y := 0\<rparr> else p)
      in if p_y p1 > height cv - paddleHeight
         then p1\<lparr>p_y := height cv - paddleHeight\<rparr>
         else p1)"

definition movePaddles :: "client \<Rightarrow> client" where
  "movePaddles s =
     (let s1 = s\<lparr>leftPaddle := (leftPaddle s)\<lparr>p_y := p_y (leftPaddle s) + p_dy (leftPaddle s)\<rparr>\<rparr>;
          s2 = s1\<lparr>rightPaddle := (rightPaddle s1)\<lparr>p_y := p_y (rightPaddle s1) + p_dy (rightPaddle s1)\<rparr>\<rparr>;
          s3 = s2\<lparr>leftPaddle := keepInBounds (canvas s2) (leftPaddle s2)\<rparr>;
          s4 = s3\<lparr>rightPaddle := keepInBounds (canvas s3) (rightPaddle s3)\<rparr>;
          paddleToSend = (if isHost s4 then p_y (leftPaddle s4) else p_y (rightPaddle s4));
          paddleSide = (if isHost s4 then ''left'' else ''right'')
      in if useWebRTC s4 \<and> peerConnected s4
         then sendWebRTCMessage (PaddleMove paddleSide paddleToSend) s4
         else socket_emit (PaddleMoveRelay (currentRoomCode s4) paddleToSend) s4)"

definition moveBall :: "client \<Rightarrow> client" where
  "moveBall s =
     s\<lparr>net_ball := (net_ball s)\<lparr>b_x := b_x (net_ball s) + b_dx (net_ball s),
                                   b_y := b_y (net_ball s) + b_dy (net_ball s)\<rparr>\<rparr>"

text \<open>\<open>resetBall(direction)\<close> of the script; \<open>r\<close> is its random number.\<close>

definition resetBall_net :: "real \<Rightarrow> real \<Rightarrow> client \<Rightarrow> client" where
  "resetBall_net direction r s =
     s\<lparr>net_ball := (net_ball s)\<lparr>b_x := width (canvas s) / 2,
                                   b_y := height (canvas s) / 2,
                                   b_dx := b_speed (net_ball s) * direction,
                                   b_dy := b_speed (net_ball s) * (if r > 0.5 then 1 else -1)\<rparr>\<rparr>"

text \<open>The four blocks of \<open>checkCollisions\<close>, in the source's order.\<close>

definition wallCollision :: "client \<Rightarrow> client" where
  "wallCollision s =
     (if b_y (net_ball s) \<le> 0 \<or> b_y (net_ball s) + ballSize \<ge> height (canvas s)
      then s\<lparr>net_ball := (net_ball s)\<lparr>b_dy := - b_dy (net_ball s)\<rparr>\<rparr>
      else s)"

text \<open>
  What both paddle blocks do to the ball once their test holds: \<open>py\<close> is the
  \<open>y\<close> of the paddle that was hit.
\<close>

definition paddleHit :: "real \<Rightarrow> ball2d \<Rightarrow> ball2d" where
  "paddleHit py b =
     (let b1 = b\<lparr>b_dx := - b_dx b\<rparr>;
          hitPosition = (b_y b1 - py) / paddleHeight;
          b2 = b1\<lparr>b_dy := 10 * (hitPosition - 0.5)\<rparr>
      in if \<bar>b_dx b2\<bar> < 15 then b2\<lparr>b_dx := b_dx b2 * 1.05\<rparr> else b2)"

definition leftPaddleCollision :: "client \<Rightarrow> client" where
  "leftPaddleCollision s =
     (if b_x (net_ball s) \<le> p_x (leftPaddle s) + paddleWidth \<and>
         b_y (net_ball s) + ballSize \<ge> p_y (leftPaddle s) \<and>
         b_y (net_ball s) \<le> p_y (leftPaddle s) + paddleHeight \<and>
         b_dx (net_ball s) < 0
      then s\<lparr>net_ball := paddleHit (p_y (leftPaddle s)) (net_ball s)\<rparr>
      else s)"

definition rightPaddleCollision :: "client \<Rightarrow> client" where
  "rightPaddleCollision s =
     (if b_x (net_ball s) + ballSize \<ge> p_x (rightPaddle s) \<and>
         b_y (net_ball s) + ballSize \<ge> p_y (rightPaddle s) \<and>
         b_y (net_ball s) \<le> p_y (rightPaddle s) + paddleHeight \<and>
         b_dx (net_ball s) > 0
      then s\<lparr>net_ball := paddleHit (p_y (rightPaddle s)) (net_ball s)\<rparr>
      else s)"

definition outOfBounds :: "real \<Rightarrow> client \<Rightarrow> client" where
  "outOfBounds r s =
     (if b_x (net_ball s) < 0
      then resetBall_net 1 r (s\<lparr>rightScore := rightScore s + 1\<rparr>)
      else if b_x (net_ball s) > width (canvas s)
      then resetBall_net (-1) r (s\<lparr>leftScore := leftScore s + 1\<rparr>)
      else s)"

definition checkCollisions :: "real \<Rightarrow> client \<Rightarrow> client" where
  "checkCollisions r s =
     outOfBounds r (rightPaddleCollision (leftPaddleCollision (wallCollision s)))"

text \<open>
  \<open>update\<close> in its three blocks: the paddles, the host's ball step with its
  broadcast, and the win test. \<open>r\<close> is the random number of a reset after a
  point.
\<close>

definition hostStep :: "real \<Rightarrow> client \<Rightarrow> client" where
  "hostStep r s =
     (let s' = checkCollisions r (moveBall s)
      in if useWebRTC s' \<and> peerConnected s'
         then sendWebRTCMessage
                (BallUpdate (net_ball s') (Some (leftScore s')) (Some (rightScore s'))) s'
         else socket_emit
                (BallMove (currentRoomCode s') (net_ball s') (leftScore s') (rightScore s')) s')"

definition checkWin :: "client \<Rightarrow> client" where
  "checkWin s =
     (if leftScore s \<ge> winningScore \<or> rightScore s \<ge> winningScore
      then endGame None s
      else s)"

definition update :: "real \<Rightarrow> client \<Rightarrow> client" where
  "update r s =
     (let s1 = movePaddles s;
          s2 = (if isHost s1 then hostStep r s1 else s1)
      in checkWin s2)"

definition gameLoop :: "real \<Rightarrow> client \<Rightarrow> client" where
  "gameLoop r s = (if \<not> gameActive s then s else update r s)"

subsection \<open>Messages of the direct channel\<close>

definition setPaddle :: "string \<Rightarrow> real \<Rightarrow> client \<Rightarrow> client" where
  "setPaddle side position s =
     (if side = ''left''
      then s\<lparr>leftPaddle := (leftPaddle s)\<lparr>p_y := position\<rparr>\<rparr>
      else s\<lparr>rightPaddle := (rightPaddle s)\<lparr>p_y := position\<rparr>\<rparr>)"

definition applyBallUpdate :: "ball2d \<Rightarrow> int option \<Rightarrow> int option \<Rightarrow> client \<Rightarrow> client" where
  "applyBallUpdate b left right s =
     (if \<not> isHost s then updateScore left right (s\<lparr>net_ball := b\<rparr>) else s)"

fun handleWebRTCMessage :: "message \<Rightarrow> client \<Rightarrow> client" where
  "handleWebRTCMessage (PaddleMove side position) s = setPaddle side position s"
| "handleWebRTCMessage (BallUpdate b left right) s = applyBallUpdate b left right s"
| "handleWebRTCMessage RequestBallUpdate s =
     (if isHost s \<and> gameActive s
      then sendWebRTCMessage
             (BallUpdate (net_ball s) (Some (leftScore s)) (Some (rightScore s))) s
      else s)"
| "handleWebRTCMessage GameOver s = s\<lparr>gameActive := False\<rparr>"
| "handleWebRTCMessage (Other t) s = s"

subsection \<open>Handlers of the peer object\<close>

definition on_peer_signal :: "string \<Rightarrow> client \<Rightarrow> client" where
  "on_peer_signal d s = socket_emit (WebrtcSignal (currentRoomCode s) d) s"

definition on_peer_connect :: "client \<Rightarrow> client" where
  "on_peer_connect s =
     (let s1 = s\<lparr>peerConnected := True,
                  connectionText := ''WebRTC connected! Using peer-to-peer communication.''\<rparr>
      in if \<not> isHost s1 \<and> gameActive s1
         then sendWebRTCMessage RequestBallUpdate s1
         else s1)"

definition on_peer_error :: "client \<Rightarrow> client" where
  "on_peer_error s =
     s\<lparr>connectionText := ''WebRTC error. Falling back to WebSockets.'',
       useWebRTC := False, peerConnected := False\<rparr>"

definition on_peer_close :: "client \<Rightarrow> client" where
  "on_peer_close s =
     s\<lparr>peerConnected := False,
       connectionText := ''WebRTC connection closed. Using WebSockets.'',
       useWebRTC := False\<rparr>"

subsection \<open>Handlers of the socket\<close>

definition on_gameCreated :: "string \<Rightarrow> client \<Rightarrow> client" where
  "on_gameCreated roomCode s =
     s\<lparr>currentRoomCode := Some roomCode, screen := RoomScreen, isHost := True\<rparr>"

definition on_gameJoined :: "string \<Rightarrow> bool \<Rightarrow> client \<Rightarrow> client" where
  "on_gameJoined roomCode fails s =
     (let s1 = showWaitingScreen (s\<lparr>currentRoomCode := Some roomCode\<rparr>)
      in if useWebRTC s1 \<and> \<not> isHost s1 then initializeWebRTC True fails s1 else s1)"

definition on_joinError :: "string \<Rightarrow> client \<Rightarrow> client" where
  "on_joinError m s = s\<lparr>joinError := m\<rparr>"

definition on_playerJoined :: "bool \<Rightarrow> client \<Rightarrow> client" where
  "on_playerJoined fails s =
     (if isHost s
      then (let s1 = showWaitingScreen s
            in if useWebRTC s1 then initializeWebRTC False fails s1 else s1)
      else s)"

text \<open>\<open>fails\<close> says that \<open>peer.signal\<close> threw.\<close>

definition on_webrtcSignal :: "bool \<Rightarrow> client \<Rightarrow> client" where
  "on_webrtcSignal fails s =
     (if peer s \<noteq> None \<and> useWebRTC s
      then (if fails
            then s\<lparr>connectionText := ''Connection error. Falling back to WebSockets.'',
                   useWebRTC := False\<rparr>
            else s)
      else s)"

definition on_playerLeft :: "client \<Rightarrow> client" where
  "on_playerLeft s =
     destroyPeer
       (if gameActive s then endGame (Some ''Opponent left the game'') s
        else backToMenu s)"

definition on_gameStart :: "real \<Rightarrow> real \<Rightarrow> client \<Rightarrow> client" where
  "on_gameStart r1 r2 s =
     (let s1 = startGame r1 r2 s
      in if isHost s1 then s1\<lparr>timers := timers s1 + 1\<rparr> else s1)"

text \<open>The callback \<open>on_gameStart\<close> schedules, run 100 ms later.\<close>

definition initialBallState :: "client \<Rightarrow> client" where
  "initialBallState s =
     (if useWebRTC s \<and> peerConnected s
      then sendWebRTCMessage (BallUpdate (net_ball s) (Some 0) (Some 0)) s
      else socket_emit (BallMove (currentRoomCode s) (net_ball s) 0 0) s)"

definition on_timeout :: "client \<Rightarrow> client" where
  "on_timeout s =
     (if timers s = 0 then s else initialBallState (s\<lparr>timers := timers s - 1\<rparr>))"

definition on_opponentPaddleMove :: "string \<Rightarrow> real \<Rightarrow> client \<Rightarrow> client" where
  "on_opponentPaddleMove side position s =
     (if \<not> useWebRTC s \<or> \<not> peerConnected s then setPaddle side position s else s)"

definition on_ballUpdate :: "ball2d \<Rightarrow> int option \<Rightarrow> int option \<Rightarrow> client \<Rightarrow> client" where
  "on_ballUpdate b left right s =
     (if \<not> useWebRTC s \<or> \<not> peerConnected s then applyBallUpdate b left right s else s)"

definition on_sendBallUpdate :: "string \<Rightarrow> client \<Rightarrow> client" where
  "on_sendBallUpdate roomCode s =
     (if (\<not> useWebRTC s \<or> \<not> peerConnected s) \<and> isHost s \<and> gameActive s
      then socket_emit (BallMove (Some roomCode) (net_ball s) (leftScore s) (rightScore s)) s
      else s)"

definition on_gameEnded :: "client \<Rightarrow> client" where
  "on_gameEnded s = s\<lparr>gameActive := False\<rparr>"

definition on_gameRestarted :: "client \<Rightarrow> client" where
  "on_gameRestarted s =
     (showWaitingScreen (resetGame s))\<lparr>playerReady := False, opponentReady := False\<rparr>"

subsection \<open>Buttons and keys\<close>

definition createGame :: "client \<Rightarrow> client" where
  "createGame s = socket_emit CreateGame s"

definition showJoinRoom :: "client \<Rightarrow> client" where
  "showJoinRoom s = s\<lparr>screen := RoomScreen\<rparr>"

text \<open>\<open>roomCode\<close> is the input's text, trimmed and in upper case.\<close>

definition joinGame :: "string \<Rightarrow> client \<Rightarrow> client" where
  "joinGame roomCode s =
     (if roomCode \<noteq> '''' then socket_emit (JoinGame roomCode) s
      else s\<lparr>joinError := ''Please enter a room code''\<rparr>)"

definition playerReadyUp :: "client \<Rightarrow> client" where
  "playerReadyUp s = socket_emit (PlayerReady (currentRoomCode s)) (s\<lparr>playerReady := True\<rparr>)"

definition restartGame :: "client \<Rightarrow> client" where
  "restartGame s = socket_emit (RestartGame (currentRoomCode s)) s"

definition isUpKey :: "string \<Rightarrow> bool" where
  "isUpKey k = (k = ''w'' \<or> k = ''W'' \<or> k = ''ArrowUp'')"

definition isDownKey :: "string \<Rightarrow> bool" where
  "isDownKey k = (k = ''s'' \<or> k = ''S'' \<or> k = ''ArrowDown'')"

definition handleKeyDown :: "string \<Rightarrow> client \<Rightarrow> client" where
  "handleKeyDown k s =
     (if \<not> gameActive s then s
      else if isHost s
      then (if isUpKey k
            then s\<lparr>leftPaddle := (leftPaddle s)\<lparr>p_dy := - p_speed (leftPaddle s)\<rparr>\<rparr>
            else if isDownKey k
            then s\<lparr>leftPaddle := (leftPaddle s)\<lparr>p_dy := p_speed (leftPaddle s)\<rparr>\<rparr>
            else s)
      else (if isUpKey k
            then s\<lparr>rightPaddle := (rightPaddle s)\<lparr>p_dy := - p_speed (rightPaddle s)\<rparr>\<rparr>
            else if isDownKey k
            then s\<lparr>rightPaddle := (rightPaddle s)\<lparr>p_dy := p_speed (rightPaddle s)\<rparr>\<rparr>
            else s))"

definition handleKeyUp :: "string \<Rightarrow> client \<Rightarrow> client" where
  "handleKeyUp k s =
     (if \<not> gameActive s then s
      else if isHost s
      then (if isUpKey k \<and> p_dy (leftPaddle s) < 0
            then s\<lparr>leftPaddle := (leftPaddle s)\<lparr>p_dy := 0\<rparr>\<rparr>
            else if isDownKey k \<and> p_dy (leftPaddle s) > 0
            then s\<lparr>leftPaddle := (leftPaddle s)\<lparr>p_dy := 0\<rparr>\<rparr>
            else s)
      else (if isUpKey k \<and> p_dy (rightPaddle s) < 0
            then s\<lparr>rightPaddle := (rightPaddle s)\<lparr>p_dy := 0\<rparr>\<rparr>
            else if isDownKey k \<and> p_dy (rightPaddle s) > 0
            then s\<lparr>rightPaddle := (rightPaddle s)\<lparr>p_dy := 0\<rparr>\<rparr>
            else s))"

subsection \<open>Events\<close>

text \<open>
  Everything that can run a piece of the script: socket events, events of the
  peer object, user input, an animation frame and the timer. Random numbers
  and the outcome of a call that may throw come with the event. The events of
  the peer object are not tied to a live peer: the environment may deliver any
  of them in any state.

  \<open>step\<close> is one run of a handler. The script calls \<open>setupSocketHandlers\<close>
  twice, from \<open>init\<close> (bound to \<open>window.onload\<close>) and from the
  \<open>DOMContentLoaded\<close> listener, and each call registers a new listener for
  every socket event. One socket event therefore runs its handler twice, one
  run after the other: it is two steps of \<open>run\<close>. The handlers of the peer
  object, the buttons, the keys, the frame and the timer are registered once.
\<close>

datatype event =
    GameCreated string
  | GameJoined string bool
  | JoinError string
  | PlayerJoined bool
  | Signal bool
  | PlayerLeft
  | GameStart real real
  | Timeout
  | OpponentPaddleMove string real
  | BallUpdateRelay ball2d "int option" "int option"
  | SendBallUpdate string
  | GameEnded
  | GameRestarted
  | PeerSignal string
  | PeerConnect
  | PeerData message
  | PeerError
  | PeerClose
  | ClickCreateGame
  | ClickJoinGame
  | ClickJoinRoom string
  | ClickReady
  | ClickPlayAgain
  | ClickBack
  | KeyDown string
  | KeyUp string
  | Frame real

fun step :: "event \<Rightarrow> client \<Rightarrow> client" where
  "step (GameCreated c) s = on_gameCreated c s"
| "step (GameJoined c fails) s = on_gameJoined c fails s"
| "step (JoinError m) s = on_joinError m s"
| "step (PlayerJoined fails) s = on_playerJoined fails s"
| "step (Signal fails) s = on_webrtcSignal fails s"
| "step PlayerLeft s = on_playerLeft s"
| "step (GameStart r1 r2) s = on_gameStart r1 r2 s"
| "step Timeout s = on_timeout s"
| "step (OpponentPaddleMove side position) s = on_opponentPaddleMove side position s"
| "step (BallUpdateRelay b left right) s = on_ballUpdate b left right s"
| "step (SendBallUpdate c) s = on_sendBallUpdate c s"
| "step GameEnded s = on_gameEnded s"
| "step GameRestarted s = on_gameRestarted s"
| "step (PeerSignal d) s = on_peer_signal d s"
| "step PeerConnect s = on_peer_connect s"
| "step (PeerData m) s = handleWebRTCMessage m s"
| "step PeerError s = on_peer_error s"
| "step PeerClose s = on_peer_close s"
| "step ClickCreateGame s = createGame s"
| "step ClickJoinGame s = showJoinRoom s"
| "step (ClickJoinRoom c) s = joinGame c s"
| "step ClickReady s = playerReadyUp s"
| "step ClickPlayAgain s = restartGame s"
| "step ClickBack s = backToMenu s"
| "step (KeyDown k) s = handleKeyDown k s"
| "step (KeyUp k) s = handleKeyUp k s"
| "step (Frame r) s = gameLoop r s"

fun run :: "event list \<Rightarrow> client \<Rightarrow> client" where
  "run [] s = s"
| "run (e # es) s = run es (step e s)"

text \<open>One \<open>playerLeft\<close> event of the socket: both registered listeners run.\<close>

definition playerLeft_event :: "client \<Rightarrow> client" where
  "playerLeft_event s = step PlayerLeft (step PlayerLeft s)"

text \<open>The direct-channel entries of a log.\<close>

fun isDirect :: "out \<Rightarrow> bool" where
  "isDirect (Direct m) = True"
| "isDirect (Relay e) = False"

definition direct :: "client \<Rightarrow> out list" where
  "direct s = filter isDirect (sent s)"

text \<open>
  The two events whose handlers call \<open>sendWebRTCMessage\<close> without testing
  \<open>useWebRTC\<close>: they answer the peer on the channel it used.
\<close>

definition answersPeer :: "event \<Rightarrow> bool" where
  "answersPeer e = (e = PeerConnect \<or> e = PeerData RequestBallUpdate)"

text \<open>
  The speeds of a ball the host has simulated since \<open>resetGameState\<close>: the
  serve speed 5, a longitudinal magnitude from 5 up to the last speed-up below
  the cap, and a transverse magnitude set by a hit position or the serve.
\<close>

definition hostBallSpeeds :: "ball2d \<Rightarrow> bool" where
  "hostBallSpeeds b =
     (b_speed b = 5 \<and> 5 \<le> \<bar>b_dx b\<bar> \<and> \<bar>b_dx b\<bar> < 15.75 \<and> \<bar>b_dy b\<bar> \<le> 6.5)"

subsection \<open>Example sessions\<close>

definition page :: canvas_el where
  "page = \<lparr>width = 800, height = 600\<rparr>"

text \<open>A host in a running game with the direct channel connected.\<close>

definition hosting :: client where
  "hosting = run [GameCreated ''ROOM'', PlayerJoined False, PeerConnect, GameStart 0 0] (loaded page)"

text \<open>The same host after \<open>peer.signal\<close> threw on a later signal.\<close>

definition fallen :: client where
  "fallen = step (Signal True) hosting"

text \<open>A guest in a running game with the direct channel connected.\<close>

definition guesting :: client where
  "guesting = run [GameJoined ''ROOM'' False, PeerConnect, GameStart 0 0] (loaded page)"

definition far_ball :: ball2d where
  "far_ball = \<lparr>b_x = 100, b_y = 100, b_dx = 5, b_dy = 5, b_speed = 5\<rparr>"

text \<open>
  The host's ball in front of the left paddle after twenty-two speed-ups
  (\<open>rallySpeed\<close>), one step before the left and the right line, one step
  before the top wall, and one step before each paddle at the serve speed.
\<close>

definition rallySpeed :: real where
  "rallySpeed = 5 * 1.05 ^ 22"

definition fast_ball :: client where
  "fast_ball = hosting\<lparr>net_ball := \<lparr>b_x = 70, b_y = 300, b_dx = - rallySpeed,
                                     b_dy = 0, b_speed = 5\<rparr>\<rparr>"

definition out_left :: client where
  "out_left = hosting\<lparr>net_ball := \<lparr>b_x = 4, b_y = 50, b_dx = -5, b_dy = 0, b_speed = 5\<rparr>\<rparr>"

definition out_right :: client where
  "out_right = hosting\<lparr>net_ball := \<lparr>b_x = 799, b_y = 50, b_dx = 5, b_dy = 0, b_speed = 5\<rparr>\<rparr>"


definition at_left_paddle :: client where
  "at_left_paddle = hosting\<lparr>net_ball := \<lparr>b_x = 68, b_y = 300, b_dx = -5, b_dy = 0, b_speed = 5\<rparr>\<rparr>"

definition at_right_paddle :: client where
  "at_right_paddle = hosting\<lparr>net_ball := \<lparr>b_x = 717, b_y = 300, b_dx = 5, b_dy = 0, b_speed = 5\<rparr>\<rparr>"

text \<open>
  The host's ball one step before the left line at the height of the left
  paddle: after its move it is behind the line and still passes the hit test.
\<close>

definition behind_line :: client where
  "behind_line = hosting\<lparr>net_ball := \<lparr>b_x = 4, b_y = 300, b_dx = -5, b_dy = 0, b_speed = 5\<rparr>\<rparr>"

text \<open>What the host goes on to do after a fallback.\<close>

definition later :: "event list" where
  "later = [Frame 0, KeyDown ''w'', Frame 0, PeerData (PaddleMove ''right'' 120), Timeout]"



section \<open>Properties of the single-player game\<close>

subsection \<open>What each block of a frame changes\<close>

lemma movePlayer_fields [simp]:
  "ball (movePlayer s) = ball s"
  "paddle2 (movePlayer s) = paddle2 s"
  "ballSpeed (movePlayer s) = ballSpeed s"
  "score (movePlayer s) = score s"
  "keys (movePlayer s) = keys s"
  "ballInPlay (movePlayer s) = ballInPlay s"
  "instruction (movePlayer s) = instruction s"
  "lastAiTarget (movePlayer s) = lastAiTarget s"
  by (simp_all add: movePlayer_def Let_def)

lemma followPaddle_fields [simp]:
  "paddle1 (followPaddle s) = paddle1 s"
  "paddle2 (followPaddle s) = paddle2 s"
  "ballSpeed (followPaddle s) = ballSpeed s"
  "score (followPaddle s) = score s"
  "keys (followPaddle s) = keys s"
  "ballInPlay (followPaddle s) = ballInPlay s"
  "instruction (followPaddle s) = instruction s"
  "lastAiTarget (followPaddle s) = lastAiTarget s"
  "vx (ball (followPaddle s)) = vx (ball s)"
  "vy (ball (followPaddle s)) = vy (ball s)"
  "vz (ball (followPaddle s)) = (if ballInPlay s then vz (ball s) else vz (paddle1 s))"
  by (simp_all add: followPaddle_def)

lemma moveAi_fields [simp]:
  "ball (moveAi s) = ball s"
  "paddle1 (moveAi s) = paddle1 s"
  "ballSpeed (moveAi s) = ballSpeed s"
  "score (moveAi s) = score s"
  "keys (moveAi s) = keys s"
  "ballInPlay (moveAi s) = ballInPlay s"
  "instruction (moveAi s) = instruction s"
  "lastAiTarget (moveAi s) = lastAiTarget s * 0.8 + aiTarget s * 0.2"
  "vx (paddle2 (moveAi s)) = vx (paddle2 s)"
  "vy (paddle2 (moveAi s)) = vy (paddle2 s)"
  by (simp_all add: moveAi_def Let_def)


lemma moveAi_paddle2_z:
  "courtMin \<le> vz (paddle2 (moveAi s)) \<and> vz (paddle2 (moveAi s)) \<le> courtMax"
  by (simp add: moveAi_def Let_def courtMin_def courtMax_def)

lemma launchBall_fields [simp]:
  "ball (launchBall r s) = ball s"
  "paddle1 (launchBall r s) = paddle1 s"
  "paddle2 (launchBall r s) = paddle2 s"
  "score (launchBall r s) = score s"
  "keys (launchBall r s) = keys s"
  "lastAiTarget (launchBall r s) = lastAiTarget s"
  by (simp_all add: launchBall_def)

lemma launchBall_serve:
  "\<not> ballInPlay s \<Longrightarrow> ballInPlay (launchBall r s)"
  "\<not> ballInPlay s \<Longrightarrow> vx (ballSpeed (launchBall r s)) = 0.2"
  "\<not> ballInPlay s \<Longrightarrow> vz (ballSpeed (launchBall r s)) = (r - 0.5) * 0.15"
  "ballInPlay s \<Longrightarrow> launchBall r s = s"
  by (simp_all add: launchBall_def)

lemma updatePaddles_fields [simp]:
  "ball (updatePaddles r s) = ball (followPaddle (movePlayer s))"
  "paddle1 (updatePaddles r s) = paddle1 (movePlayer s)"
  "paddle2 (updatePaddles r s) = paddle2 (moveAi (followPaddle (movePlayer s)))"
  "score (updatePaddles r s) = score s"
  "lastAiTarget (updatePaddles r s) =
     lastAiTarget s * 0.8 + aiTarget (followPaddle (movePlayer s)) * 0.2"
  by (simp_all add: updatePaddles_def Let_def)

lemma updatePaddles_inPlay:
  "ballInPlay (updatePaddles r s) = (ballInPlay s \<or> keys s '' '')"
  by (auto simp add: updatePaddles_def Let_def launchBall_def)

lemma updatePaddles_speed:
  "ballSpeed (updatePaddles r s) =
     (if keys s '' '' \<and> \<not> ballInPlay s
      then (ballSpeed s)\<lparr>vx := 0.2, vz := (r - 0.5) * 0.15\<rparr>
      else ballSpeed s)"
  by (simp add: updatePaddles_def Let_def launchBall_def)

lemma raw:
  assumes "0 < vx (ballSpeed s)"
  shows "aiTarget (followPaddle (movePlayer s)) =
           max courtMin (min courtMax
             (vz (ball (followPaddle (movePlayer s))) +
              vz (ballSpeed s) * (\<bar>vx (paddle2 s) - vx (ball s)\<bar> / vx (ballSpeed s))))"
  using assms
  by (simp add: aiTarget_def Let_def courtMin_def courtMax_def)


lemma integrateBall_fields [simp]:
  "paddle1 (integrateBall s) = paddle1 s"
  "paddle2 (integrateBall s) = paddle2 s"
  "ballSpeed (integrateBall s) = ballSpeed s"
  "score (integrateBall s) = score s"
  "ballInPlay (integrateBall s) = ballInPlay s"
  "vx (ball (integrateBall s)) = vx (ball s) + vx (ballSpeed s)"
  "vz (ball (integrateBall s)) = vz (ball s) + vz (ballSpeed s)"
  by (simp_all add: integrateBall_def)

lemma playerPaddleCollision_fields [simp]:
  "ball (playerPaddleCollision s) = ball s"
  "paddle1 (playerPaddleCollision s) = paddle1 s"
  "paddle2 (playerPaddleCollision s) = paddle2 s"
  "score (playerPaddleCollision s) = score s"
  "ballInPlay (playerPaddleCollision s) = ballInPlay s"
  by (simp_all add: playerPaddleCollision_def Let_def)

lemma aiPaddleCollision_fields [simp]:
  "ball (aiPaddleCollision s) = ball s"
  "paddle1 (aiPaddleCollision s) = paddle1 s"
  "paddle2 (aiPaddleCollision s) = paddle2 s"
  "score (aiPaddleCollision s) = score s"
  "ballInPlay (aiPaddleCollision s) = ballInPlay s"
  by (simp_all add: aiPaddleCollision_def Let_def)

lemma courtBoundaries_fields [simp]:
  "ball (courtBoundaries r s) = ball s"
  "paddle1 (courtBoundaries r s) = paddle1 s"
  "paddle2 (courtBoundaries r s) = paddle2 s"
  "score (courtBoundaries r s) = score s"
  "ballInPlay (courtBoundaries r s) = ballInPlay s"
  "vx (ballSpeed (courtBoundaries r s)) = vx (ballSpeed s)"
  by (simp_all add: courtBoundaries_def Let_def)

lemma normalizeHorizontal_fields [simp]:
  "ball (normalizeHorizontal s) = ball s"
  "paddle1 (normalizeHorizontal s) = paddle1 s"
  "paddle2 (normalizeHorizontal s) = paddle2 s"
  "score (normalizeHorizontal s) = score s"
  "ballInPlay (normalizeHorizontal s) = ballInPlay s"
  "vz (ballSpeed (normalizeHorizontal s)) = vz (ballSpeed s)"
  by (simp_all add: normalizeHorizontal_def)

lemma normalizeVertical_fields [simp]:
  "ball (normalizeVertical s) = ball s"
  "paddle1 (normalizeVertical s) = paddle1 s"
  "paddle2 (normalizeVertical s) = paddle2 s"
  "score (normalizeVertical s) = score s"
  "ballInPlay (normalizeVertical s) = ballInPlay s"
  "vx (ballSpeed (normalizeVertical s)) = vx (ballSpeed s)"
  by (simp_all add: normalizeVertical_def)

lemma drag_fields [simp]:
  "ball (drag s) = ball s"
  "paddle1 (drag s) = paddle1 s"
  "paddle2 (drag s) = paddle2 s"
  "score (drag s) = score s"
  "ballInPlay (drag s) = ballInPlay s"
  "vx (ballSpeed (drag s)) = vx (ballSpeed s)"
  "vz (ballSpeed (drag s)) = vz (ballSpeed s) * 0.98"
  by (simp_all add: drag_def)

lemma scoring_none:
  "vx (ball s) \<le> 10 \<Longrightarrow> -10 \<le> vx (ball s) \<Longrightarrow> scoring s = s"
  by (simp add: scoring_def)

lemma scoring_inPlay:
  "ballInPlay (scoring s) = (ballInPlay s \<and> vx (ball s) \<le> 10 \<and> -10 \<le> vx (ball s))"
  by (auto simp add: scoring_def resetBall_def)

lemma scoring_paddles [simp]:
  "paddle1 (scoring s) = paddle1 s"
  "paddle2 (scoring s) = paddle2 s"
  by (simp_all add: scoring_def resetBall_def)

text \<open>The two clamps as functions of the speed they read.\<close>

lemma normalizeHorizontal_vx:
  "vx (ballSpeed (normalizeHorizontal s)) =
     (if \<bar>vx (ballSpeed s)\<bar> > maxSpeed then sgn (vx (ballSpeed s)) * maxSpeed
      else if \<bar>vx (ballSpeed s)\<bar> < minSpeed then sgn (vx (ballSpeed s)) * minSpeed
      else vx (ballSpeed s))"
  by (simp add: normalizeHorizontal_def)

lemma normalizeVertical_vz:
  "vz (ballSpeed (normalizeVertical s)) =
     (if \<bar>vz (ballSpeed s)\<bar> > maxVerticalSpeed then sgn (vz (ballSpeed s)) * maxVerticalSpeed
      else vz (ballSpeed s))"
  by (simp add: normalizeVertical_def)

lemma normalizeHorizontal_bounds:
  assumes "vx (ballSpeed s) \<noteq> 0"
  shows "minSpeed \<le> \<bar>vx (ballSpeed (normalizeHorizontal s))\<bar>"
    and "\<bar>vx (ballSpeed (normalizeHorizontal s))\<bar> \<le> maxSpeed"
  using assms
  by (auto simp add: normalizeHorizontal_vx minSpeed_def maxSpeed_def abs_mult sgn_if)

lemma normalizeVertical_bound:
  "\<bar>vz (ballSpeed (normalizeVertical s))\<bar> \<le> maxVerticalSpeed"
  by (auto simp add: normalizeVertical_vz maxVerticalSpeed_def maxSpeed_def abs_mult sgn_if)

lemma collisions_vx_nonzero:
  assumes "vx (ballSpeed s) \<noteq> 0"
  shows "vx (ballSpeed (aiPaddleCollision (playerPaddleCollision s))) \<noteq> 0"
  using assms by (simp add: aiPaddleCollision_def playerPaddleCollision_def Let_def)

text \<open>After a frame's ball update that leaves the ball in play, the speeds are normalised.\<close>

lemma updateBall_bounds:
  assumes "ballInPlay s" and "vx (ballSpeed s) \<noteq> 0" and "ballInPlay (updateBall r s)"
  shows "minSpeed \<le> \<bar>vx (ballSpeed (updateBall r s))\<bar>"
    and "\<bar>vx (ballSpeed (updateBall r s))\<bar> \<le> maxSpeed"
    and "\<bar>vz (ballSpeed (updateBall r s))\<bar> \<le> maxVerticalSpeed"
proof -
  let ?c = "courtBoundaries r (aiPaddleCollision (playerPaddleCollision (integrateBall s)))"
  let ?d = "drag (normalizeVertical (normalizeHorizontal ?c))"
  have u: "updateBall r s = scoring ?d"
    using assms(1) by (simp add: updateBall_def)
  have "ballInPlay (scoring ?d)" using assms(3) u by simp
  then have "vx (ball ?d) \<le> 10" "-10 \<le> vx (ball ?d)"
    by (simp_all add: scoring_inPlay)
  then have e: "updateBall r s = ?d" using u scoring_none by simp
  have nz: "vx (ballSpeed ?c) \<noteq> 0"
    using collisions_vx_nonzero [of "integrateBall s"] assms(2) by simp
  show "minSpeed \<le> \<bar>vx (ballSpeed (updateBall r s))\<bar>"
    using normalizeHorizontal_bounds(1) [OF nz] by (simp add: e)
  show "\<bar>vx (ballSpeed (updateBall r s))\<bar> \<le> maxSpeed"
    using normalizeHorizontal_bounds(2) [OF nz] by (simp add: e)
  have "\<bar>vz (ballSpeed (normalizeVertical (normalizeHorizontal ?c)))\<bar> \<le> maxVerticalSpeed"
    by (rule normalizeVertical_bound)
  then show "\<bar>vz (ballSpeed (updateBall r s))\<bar> \<le> maxVerticalSpeed"
    by (simp add: e abs_mult)
qed


lemma key_fields [simp]:
  "ball (keydown k s) = ball s" "ballSpeed (keydown k s) = ballSpeed s"
  "ballInPlay (keydown k s) = ballInPlay s" "paddle1 (keydown k s) = paddle1 s"
  "paddle2 (keydown k s) = paddle2 s" "score (keydown k s) = score s"
  "ball (keyup k s) = ball s" "ballSpeed (keyup k s) = ballSpeed s"
  "ballInPlay (keyup k s) = ballInPlay s" "paddle1 (keyup k s) = paddle1 s"
  "paddle2 (keyup k s) = paddle2 s" "score (keyup k s) = score s"
  by (simp_all add: keydown_def keyup_def)

lemma constructed_fields [simp]:
  "\<not> ballInPlay constructed"
  "ball constructed = \<lparr>vx = -8, vy = 1, vz = 0\<rparr>"
  "paddle1 constructed = \<lparr>vx = -9, vy = 1, vz = 0\<rparr>"
  "paddle2 constructed = \<lparr>vx = 9, vy = 1, vz = 0\<rparr>"
  "ballSpeed constructed = \<lparr>vx = 0, vy = 0, vz = 0\<rparr>"
  "score constructed = \<lparr>player = 0, ai = 0\<rparr>"
  "keys constructed = (\<lambda>k. False)"
  "lastAiTarget constructed = 0"
  by (simp_all add: constructed_def resetBall_def)

lemma updateBall_idle: "\<not> ballInPlay s \<Longrightarrow> updateBall r s = s"
  by (simp add: updateBall_def)

lemma reachable_speeds:
  "reachable s \<Longrightarrow> ballInPlay s \<Longrightarrow>
     minSpeed \<le> \<bar>vx (ballSpeed s)\<bar> \<and> \<bar>vx (ballSpeed s)\<bar> \<le> maxSpeed \<and>
     \<bar>vz (ballSpeed s)\<bar> \<le> maxVerticalSpeed"
proof (induction rule: reachable.induct)
  case start
  then show ?case by simp
next
  case (frame s r1 r2)
  let ?t = "updatePaddles r1 s"
  have after: "ballInPlay (updateBall r2 ?t)"
    using frame.prems by (simp add: animate_def)
  have play: "ballInPlay ?t"
  proof (rule ccontr)
    assume "\<not> ballInPlay ?t"
    then show False using after by (simp add: updateBall_idle)
  qed
  have nz: "vx (ballSpeed ?t) \<noteq> 0"
  proof (cases "ballInPlay s")
    case True
    then have "minSpeed \<le> \<bar>vx (ballSpeed s)\<bar>" using frame.IH by simp
    then show ?thesis using True by (simp add: updatePaddles_speed minSpeed_def)
  next
    case False
    then have "keys s '' ''" using play by (simp add: updatePaddles_inPlay)
    then show ?thesis using False by (simp add: updatePaddles_speed)
  qed
  show ?case
    using updateBall_bounds [OF play nz after] by (simp add: animate_def)
next
  case (down s k)
  then show ?case by simp
next
  case (up s k)
  then show ?case by simp
qed

subsection \<open>Points, hits, bounces and serves\<close>

lemma frames_reachable: "reachable s \<Longrightarrow> reachable (frames n s)"
proof (induction n arbitrary: s)
  case 0
  then show ?case by simp
next
  case (Suc n)
  have "reachable (animate 0 0 s)"
    using Suc.prems by (intro reachable.frame) (simp_all add: is_random_def)
  then show ?case using Suc.IH by simp
qed

lemma movePlayer_paddle1 [simp]:
  "vx (paddle1 (movePlayer s)) = vx (paddle1 s)"
  "vy (paddle1 (movePlayer s)) = vy (paddle1 s)"
  by (simp_all add: movePlayer_def Let_def)

lemma movePlayer_band:
  assumes "- 4.3 < vz (paddle1 s)" and "vz (paddle1 s) < 4.3"
  shows "- 4.3 < vz (paddle1 (movePlayer s)) \<and> vz (paddle1 (movePlayer s)) < 4.3"
  using assms by (simp add: movePlayer_def Let_def paddleSpeed_def)

lemma scoring_fields_player:
  assumes "vx (ball s) > 10"
  shows "score (scoring s) = (score s)\<lparr>player := player (score s) + 1\<rparr>"
    and "ball (scoring s) = \<lparr>vx = -8, vy = 1, vz = vz (paddle1 s)\<rparr>"
    and "vx (ballSpeed (scoring s)) = 0" and "vz (ballSpeed (scoring s)) = 0"
    and "\<not> ballInPlay (scoring s)"
  using assms by (simp_all add: scoring_def resetBall_def)

lemma scoring_fields_ai:
  assumes "vx (ball s) < -10"
  shows "score (scoring s) = (score s)\<lparr>ai := ai (score s) + 1\<rparr>"
    and "ball (scoring s) = \<lparr>vx = -8, vy = 1, vz = vz (paddle1 s)\<rparr>"
    and "vx (ballSpeed (scoring s)) = 0" and "vz (ballSpeed (scoring s)) = 0"
    and "\<not> ballInPlay (scoring s)"
  using assms by (simp_all add: scoring_def resetBall_def)

lemma updateBall_point_player:
  assumes "ballInPlay s" and "vx (ball s) + vx (ballSpeed s) > 10"
  shows "score (updateBall r s) = (score s)\<lparr>player := player (score s) + 1\<rparr>"
    and "ball (updateBall r s) = \<lparr>vx = -8, vy = 1, vz = vz (paddle1 s)\<rparr>"
    and "vx (ballSpeed (updateBall r s)) = 0" and "vz (ballSpeed (updateBall r s)) = 0"
    and "\<not> ballInPlay (updateBall r s)"
  using assms
  by (simp_all add: updateBall_def scoring_fields_player)

lemma updateBall_point_ai:
  assumes "ballInPlay s" and "vx (ball s) + vx (ballSpeed s) < -10"
  shows "score (updateBall r s) = (score s)\<lparr>ai := ai (score s) + 1\<rparr>"
    and "ball (updateBall r s) = \<lparr>vx = -8, vy = 1, vz = vz (paddle1 s)\<rparr>"
    and "vx (ballSpeed (updateBall r s)) = 0" and "vz (ballSpeed (updateBall r s)) = 0"
    and "\<not> ballInPlay (updateBall r s)"
  using assms
  by (simp_all add: updateBall_def scoring_fields_ai)

text \<open>A hit at the player's paddle.\<close>

lemma updateBall_player_hit:
  assumes "ballInPlay s"
    and "vx (ball s) + vx (ballSpeed s) \<le> -8.8" and "-9.2 \<le> vx (ball s) + vx (ballSpeed s)"
    and "\<bar>vz (ball s) + vz (ballSpeed s) - vz (paddle1 s)\<bar> < paddleHitbox"
    and "vx (ballSpeed s) \<noteq> 0"
  shows "vx (ballSpeed (updateBall r s)) =
           min (max (\<bar>vx (ballSpeed s)\<bar> * 1.03) minSpeed) maxSpeed"
proof -
  let ?i = "integrateBall s"
  let ?p = "playerPaddleCollision ?i"
  have p: "vx (ballSpeed ?p) = \<bar>vx (ballSpeed s)\<bar> * 1.03"
    using assms by (simp add: playerPaddleCollision_def Let_def)
  have a: "vx (ballSpeed (aiPaddleCollision ?p)) = vx (ballSpeed ?p)"
    using assms(2) by (simp add: aiPaddleCollision_def Let_def)
  let ?d = "drag (normalizeVertical (normalizeHorizontal
             (courtBoundaries r (aiPaddleCollision ?p))))"
  have e: "updateBall r s = ?d"
    using assms(1,2,3) by (simp add: updateBall_def scoring_none)
  have "vx (ballSpeed ?d) =
          (let v = \<bar>vx (ballSpeed s)\<bar> * 1.03
           in if \<bar>v\<bar> > maxSpeed then sgn v * maxSpeed
              else if \<bar>v\<bar> < minSpeed then sgn v * minSpeed else v)"
    by (simp add: normalizeHorizontal_vx a p Let_def)
  also have "\<dots> = min (max (\<bar>vx (ballSpeed s)\<bar> * 1.03) minSpeed) maxSpeed"
    using assms(5) by (auto simp add: Let_def minSpeed_def maxSpeed_def sgn_if)
  finally show ?thesis by (simp add: e)
qed

lemma updateBall_ai_hit:
  assumes "ballInPlay s"
    and "8.8 \<le> vx (ball s) + vx (ballSpeed s)" and "vx (ball s) + vx (ballSpeed s) \<le> 9.2"
    and "\<bar>vz (ball s) + vz (ballSpeed s) - vz (paddle2 s)\<bar> < paddleHitbox"
    and "vx (ballSpeed s) \<noteq> 0"
  shows "vx (ballSpeed (updateBall r s)) =
           - min (max (\<bar>vx (ballSpeed s)\<bar> * 1.03) minSpeed) maxSpeed"
proof -
  let ?i = "integrateBall s"
  let ?p = "playerPaddleCollision ?i"
  have p: "vx (ballSpeed ?p) = vx (ballSpeed s)"
    using assms(2) by (simp add: playerPaddleCollision_def Let_def)
  have a: "vx (ballSpeed (aiPaddleCollision ?p)) = - \<bar>vx (ballSpeed s)\<bar> * 1.03"
    using assms p by (simp add: aiPaddleCollision_def Let_def)
  let ?d = "drag (normalizeVertical (normalizeHorizontal
             (courtBoundaries r (aiPaddleCollision ?p))))"
  have e: "updateBall r s = ?d"
    using assms(1,2,3) by (simp add: updateBall_def scoring_none)
  have "vx (ballSpeed ?d) =
          (let v = - \<bar>vx (ballSpeed s)\<bar> * 1.03
           in if \<bar>v\<bar> > maxSpeed then sgn v * maxSpeed
              else if \<bar>v\<bar> < minSpeed then sgn v * minSpeed else v)"
    by (simp add: normalizeHorizontal_vx a Let_def)
  also have "\<dots> = - min (max (\<bar>vx (ballSpeed s)\<bar> * 1.03) minSpeed) maxSpeed"
    using assms(5) by (auto simp add: Let_def minSpeed_def maxSpeed_def sgn_if)
  finally show ?thesis by (simp add: e)
qed



lemma docked_follow:
  assumes "\<not> ballInPlay s"
  shows "vz (ball (updatePaddles r s)) = vz (paddle1 (updatePaddles r s))"
    and "vx (ball (updatePaddles r s)) = vx (ball s)"
  using assms by simp_all

lemma serve_launch:
  assumes "\<not> ballInPlay s" and "keys s '' ''"
  shows "ballInPlay (updatePaddles r s)" and "vx (ballSpeed (updatePaddles r s)) = 0.2"
  using assms by (simp_all add: updatePaddles_inPlay updatePaddles_speed)

lemma no_serve_without_space:
  assumes "\<not> ballInPlay s" and "\<not> keys s '' ''"
  shows "\<not> ballInPlay (animate r1 r2 s)"
  using assms by (simp add: animate_def updatePaddles_inPlay updateBall_idle)

lemma updateBall_paddles [simp]:
  "paddle1 (updateBall r s) = paddle1 s" "paddle2 (updateBall r s) = paddle2 s"
  by (simp_all add: updateBall_def)

lemma reachable_docked:
  "reachable s \<Longrightarrow> \<not> ballInPlay s \<Longrightarrow>
     vx (ball s) = -8 \<and> vz (ball s) = vz (paddle1 s) \<and>
     vx (ballSpeed s) = 0 \<and> vz (ballSpeed s) = 0"
proof (induction rule: reachable.induct)
  case start
  then show ?case by simp
next
  case (frame s r1 r2)
  let ?t = "updatePaddles r1 s"
  show ?case
  proof (cases "ballInPlay ?t")
    case False
    then have idle: "\<not> ballInPlay s" and nokey: "\<not> keys s '' ''"
      by (simp_all add: updatePaddles_inPlay)
    have "animate r1 r2 s = ?t" using False by (simp add: animate_def updateBall_idle)
    then show ?thesis
      using frame.IH idle nokey by (simp add: updatePaddles_speed)
  next
    case True
    let ?d = "drag (normalizeVertical (normalizeHorizontal
               (courtBoundaries r2 (aiPaddleCollision (playerPaddleCollision (integrateBall ?t))))))"
    have u: "animate r1 r2 s = scoring ?d"
      using True by (simp add: animate_def updateBall_def)
    have "\<not> ballInPlay (scoring ?d)" using frame.prems u by simp
    then have out: "10 < vx (ball ?d) \<or> vx (ball ?d) < -10"
      using True by (auto simp add: scoring_inPlay)
    then show ?thesis
      unfolding u by (auto simp add: scoring_def resetBall_def)
  qed
next
  case (down s k)
  then show ?case by simp
next
  case (up s k)
  then show ?case by simp
qed

subsection \<open>Evaluating example states\<close>

lemmas sp_eval =
  animate_def updateBall_def updatePaddles_def movePlayer_def followPaddle_def moveAi_def
  aiTarget_def launchBall_def resetBall_def integrateBall_def playerPaddleCollision_def
  aiPaddleCollision_def courtBoundaries_def normalizeHorizontal_def normalizeVertical_def
  drag_def scoring_def keydown_def keyup_def constructed_def Let_def
  paddleSpeed_def aiSpeed_def paddleHitbox_def maxSpeed_def minSpeed_def maxVerticalSpeed_def

lemma served_fields:
  "ballInPlay served"
  "ballSpeed served = \<lparr>vx = 0.2, vy = 0, vz = 0\<rparr>"
  "ball served = \<lparr>vx = -7.8, vy = 1, vz = 0\<rparr>"
  "paddle1 served = \<lparr>vx = -9, vy = 1, vz = 0\<rparr>"
  "paddle2 served = \<lparr>vx = 9, vy = 1, vz = 0\<rparr>"
  "lastAiTarget served = 0"
  "score served = \<lparr>player = 0, ai = 0\<rparr>"
  by (simp_all add: served_def sp_eval)

lemma served_reachable: "reachable served"
  unfolding served_def
  by (intro reachable.frame reachable.down reachable.start) (simp_all add: is_random_def)

lemma rally_fields:
  "ballInPlay rally"
  "ballSpeed rally = \<lparr>vx = 0.2, vy = 0, vz = 0.1\<rparr>"
  "ball rally = \<lparr>vx = 0, vy = 1, vz = 1\<rparr>"
  "paddle1 rally = \<lparr>vx = -9, vy = 1, vz = 0\<rparr>"
  "paddle2 rally = \<lparr>vx = 9, vy = 1, vz = 0\<rparr>"
  "lastAiTarget rally = 0"
  by (simp_all add: rally_def served_fields)

lemma lefts_fields:
  "vz (paddle1 lefts) = -4.2"
  by (simp add: lefts_def eval_nat_numeral sp_eval)

lemma lefts_reachable: "reachable lefts"
  unfolding lefts_def by (intro frames_reachable reachable.down reachable.start)

lemma grazed_fields:
  "ballInPlay grazed"
  "ballSpeed grazed = \<lparr>vx = -0.2, vy = 0, vz = 0\<rparr>"
  "ball grazed = \<lparr>vx = -8.9, vy = 1, vz = 0\<rparr>"
  "paddle1 grazed = \<lparr>vx = -9, vy = 1, vz = 0\<rparr>"
  by (simp_all add: grazed_def served_fields)

lemma grazed_once:
  "ballSpeed (updateBall 0 grazed) = \<lparr>vx = 0.206, vy = 0, vz = 0\<rparr>"
  "ball (updateBall 0 grazed) = \<lparr>vx = -9.1, vy = 1, vz = 0\<rparr>"
  "ballInPlay (updateBall 0 grazed)"
  "paddle1 (updateBall 0 grazed) = \<lparr>vx = -9, vy = 1, vz = 0\<rparr>"
  by (simp_all add: grazed_def served_fields sp_eval)

lemma grazed_twice:
  "vx (ballSpeed (updateBall 0 (updateBall 0 grazed))) = 0.21218"
  by (simp add: grazed_def served_fields sp_eval)

lemma leaving_fields:
  "ballInPlay leaving"
  "ballSpeed leaving = \<lparr>vx = 0.2, vy = 0, vz = 0\<rparr>"
  "ball leaving = \<lparr>vx = 9.9, vy = 1, vz = 3\<rparr>"
  "paddle1 leaving = \<lparr>vx = -9, vy = 1, vz = 0\<rparr>"
  "score leaving = \<lparr>player = 0, ai = 0\<rparr>"
  by (simp_all add: leaving_def served_fields)

lemma leaving_back_fields:
  "ballInPlay leaving_back"
  "ballSpeed leaving_back = \<lparr>vx = -0.2, vy = 0, vz = 0\<rparr>"
  "ball leaving_back = \<lparr>vx = -9.9, vy = 1, vz = 3\<rparr>"
  "paddle1 leaving_back = \<lparr>vx = -9, vy = 1, vz = 0\<rparr>"
  "score leaving_back = \<lparr>player = 0, ai = 0\<rparr>"
  by (simp_all add: leaving_back_def served_fields)


subsection \<open>The AI predictor\<close>

text \<open>
  C6. In a frame in which the ball moves towards the AI side (positive
  longitudinal speed), the target the AI controller computes before smoothing
  is the linear extrapolation of the ball's lateral coordinate over the time
  to reach the AI paddle, clamped to the court limits:
  \<open>clamp (ballLateral + transverseSpeed * (distance / longitudinalSpeed))\<close>
  with \<open>distance\<close> the absolute longitudinal distance between the AI paddle and
  the ball. The controller reads the ball after the player's move and after a
  docked ball has followed the paddle; for a ball in play that is the ball of
  the frame's start. The smoothed target mixes this raw target with weight 0.2.
\<close>

theorem ai_predictor_raw_target:
  assumes "0 < vx (ballSpeed s)"
  shows "aiTarget (followPaddle (movePlayer s)) =
           max courtMin (min courtMax
             (vz (ball (followPaddle (movePlayer s))) +
              vz (ballSpeed s) * (\<bar>vx (paddle2 s) - vx (ball s)\<bar> / vx (ballSpeed s))))
         \<and> lastAiTarget (updatePaddles r s) =
             lastAiTarget s * 0.8 + aiTarget (followPaddle (movePlayer s)) * 0.2
         \<and> (ballInPlay s \<longrightarrow> vz (ball (followPaddle (movePlayer s))) = vz (ball s))"
  using assms
  by (simp add: aiTarget_def Let_def courtMin_def courtMax_def)

theorem ai_predictor_raw_target_witness:
  "0 < vx (ballSpeed rally) \<and> ballInPlay rally \<and>
   aiTarget (followPaddle (movePlayer rally)) = 4 \<and>
   lastAiTarget (updatePaddles 0 rally) = 0.8"
proof -
  have h: "0 < vx (ballSpeed rally)" by (simp add: rally_fields)
  show ?thesis
    using h ai_predictor_raw_target [OF h, of 0]
    by (simp add: rally_fields courtMin_def courtMax_def)
qed

lemma reachable_paddles_x:
  "reachable s \<Longrightarrow> vx (paddle1 s) = -9 \<and> vx (paddle2 s) = 9"
  by (induction rule: reachable.induct) (simp_all add: animate_def)

subsection \<open>The paddles and the court limits\<close>

text \<open>
  C1 says that every paddle's lateral coordinate lies within the court limits
  \<open>[courtMin, courtMax]\<close> after the paddle update, for every frame and key
  state. The AI paddle is clamped after its move (\<open>moveAi_paddle2_z\<close>), and so
  are both paddles of the networked game (\<open>movePaddles_bounds\<close>). The player's
  paddle of the single-player game is tested before its move and not clamped
  after it, and it leaves the limits: from the constructed state, with the
  \<open>a\<close> key held, the fourteenth frame starts at \<open>-3.9 > -4\<close> and ends at
  \<open>-4.2 < courtMin\<close>. It stays within one step of the limits
  (\<open>movePlayer_band\<close>).
\<close>

theorem player_paddle_leaves_court:
  "reachable lefts \<and> vz (paddle1 lefts) = -4.2 \<and> \<not> courtMin \<le> vz (paddle1 lefts)"
  by (simp add: lefts_reachable lefts_fields courtMin_def)

subsection \<open>The serve\<close>

text \<open>
  C10. The human player always serves. A frame in which the ball in play
  crosses either far line puts it back at \<open>x = -8\<close>, in front of the player's
  paddle at \<open>x = -9\<close>, at the paddle's lateral coordinate, with zero velocity
  and out of play, whichever side scored. While out of play the ball follows
  the paddle's lateral coordinate in every frame. A serve happens only in a
  frame in which the space key is held, and it always sets the longitudinal
  speed to the same positive value \<open>0.2\<close>, towards the AI paddle at \<open>x = 9\<close>;
  without the key the ball stays docked, so the AI side never serves.
\<close>

theorem player_always_serves:
  "(ballInPlay s \<and> (10 < vx (ball s) + vx (ballSpeed s) \<or> vx (ball s) + vx (ballSpeed s) < -10) \<longrightarrow>
      ball (updateBall r s) = \<lparr>vx = -8, vy = 1, vz = vz (paddle1 s)\<rparr> \<and>
      vx (ballSpeed (updateBall r s)) = 0 \<and> vz (ballSpeed (updateBall r s)) = 0 \<and>
      \<not> ballInPlay (updateBall r s))
   \<and> (\<not> ballInPlay s \<longrightarrow>
      vz (ball (updatePaddles r s)) = vz (paddle1 (updatePaddles r s)) \<and>
      vx (ball (updatePaddles r s)) = vx (ball s))
   \<and> (\<not> ballInPlay s \<and> keys s '' '' \<longrightarrow>
      ballInPlay (updatePaddles r s) \<and> vx (ballSpeed (updatePaddles r s)) = 0.2)
   \<and> (\<not> ballInPlay s \<and> \<not> keys s '' '' \<longrightarrow> \<not> ballInPlay (animate r r' s))
   \<and> (reachable s \<longrightarrow> vx (paddle1 s) = -9 \<and> vx (paddle2 s) = 9)
   \<and> (reachable s \<and> \<not> ballInPlay s \<longrightarrow>
      vx (ball s) = -8 \<and> vz (ball s) = vz (paddle1 s) \<and>
      vx (ballSpeed s) = 0 \<and> vz (ballSpeed s) = 0)"
proof (intro conjI impI)
  assume a: "ballInPlay s \<and> (10 < vx (ball s) + vx (ballSpeed s) \<or> vx (ball s) + vx (ballSpeed s) < -10)"
  then show "ball (updateBall r s) = \<lparr>vx = -8, vy = 1, vz = vz (paddle1 s)\<rparr>"
    using updateBall_point_player(2) updateBall_point_ai(2) by blast
  from a show "vx (ballSpeed (updateBall r s)) = 0"
    using updateBall_point_player(3) updateBall_point_ai(3) by blast
  from a show "vz (ballSpeed (updateBall r s)) = 0"
    using updateBall_point_player(4) updateBall_point_ai(4) by blast
  from a show "\<not> ballInPlay (updateBall r s)"
    using updateBall_point_player(5) updateBall_point_ai(5) by blast
next
  assume "\<not> ballInPlay s"
  then show "vz (ball (updatePaddles r s)) = vz (paddle1 (updatePaddles r s))"
    and "vx (ball (updatePaddles r s)) = vx (ball s)"
    by (rule docked_follow)+
next
  assume a: "\<not> ballInPlay s \<and> keys s '' ''"
  then show "ballInPlay (updatePaddles r s)" using serve_launch(1) by blast
  from a show "vx (ballSpeed (updatePaddles r s)) = 0.2" using serve_launch(2) by blast
next
  assume "\<not> ballInPlay s \<and> \<not> keys s '' ''"
  then show "\<not> ballInPlay (animate r r' s)" using no_serve_without_space by blast
next
  assume "reachable s"
  then show "vx (paddle1 s) = -9" and "vx (paddle2 s) = 9"
    using reachable_paddles_x by blast+
next
  assume a: "reachable s \<and> \<not> ballInPlay s"
  then have d: "vx (ball s) = -8 \<and> vz (ball s) = vz (paddle1 s) \<and>
     vx (ballSpeed s) = 0 \<and> vz (ballSpeed s) = 0"
    using reachable_docked by blast
  from d show "vx (ball s) = -8" by simp
  from d show "vz (ball s) = vz (paddle1 s)" by simp
  from d show "vx (ballSpeed s) = 0" by simp
  from d show "vz (ballSpeed s) = 0" by simp
qed

lemma space_fields:
  "\<not> ballInPlay (keydown '' '' constructed)" "keys (keydown '' '' constructed) '' ''"
  by (simp_all add: keydown_def)

theorem player_always_serves_witness:
  "(ballInPlay leaving \<and> 10 < vx (ball leaving) + vx (ballSpeed leaving) \<and>
      ball (updateBall 0 leaving) = \<lparr>vx = -8, vy = 1, vz = 0\<rparr> \<and>
      \<not> ballInPlay (updateBall 0 leaving))
   \<and> (ballInPlay leaving_back \<and> vx (ball leaving_back) + vx (ballSpeed leaving_back) < -10 \<and>
      ball (updateBall 0 leaving_back) = \<lparr>vx = -8, vy = 1, vz = 0\<rparr> \<and>
      \<not> ballInPlay (updateBall 0 leaving_back))
   \<and> (reachable constructed \<and> \<not> ballInPlay constructed \<and> \<not> keys constructed '' '' \<and>
      vz (ball (updatePaddles 0 constructed)) = vz (paddle1 (updatePaddles 0 constructed)) \<and>
      \<not> ballInPlay (animate 0 0 constructed) \<and> vx (ball constructed) = -8)
   \<and> (\<not> ballInPlay (keydown '' '' constructed) \<and> keys (keydown '' '' constructed) '' '' \<and>
      ballInPlay (updatePaddles 0 (keydown '' '' constructed)) \<and>
      vx (ballSpeed (updatePaddles 0 (keydown '' '' constructed))) = 0.2)"
  using player_always_serves [of leaving 0 0]
    player_always_serves [of leaving_back 0 0]
    player_always_serves [of constructed 0 0]
    player_always_serves [of "keydown '' '' constructed" 0 0]
  by (simp add: leaving_fields leaving_back_fields space_fields reachable.start)

section \<open>Properties of the networked game\<close>

subsection \<open>What each function leaves unchanged\<close>

lemma sendWebRTCMessage_keeps [simp]:
  "canvas (sendWebRTCMessage m s) = canvas s"
  "gameActive (sendWebRTCMessage m s) = gameActive s"
  "isHost (sendWebRTCMessage m s) = isHost s"
  "currentRoomCode (sendWebRTCMessage m s) = currentRoomCode s"
  "playerReady (sendWebRTCMessage m s) = playerReady s"
  "opponentReady (sendWebRTCMessage m s) = opponentReady s"
  "leftScore (sendWebRTCMessage m s) = leftScore s"
  "rightScore (sendWebRTCMessage m s) = rightScore s"
  "peer (sendWebRTCMessage m s) = peer s"
  "peerConnected (sendWebRTCMessage m s) = peerConnected s"
  "useWebRTC (sendWebRTCMessage m s) = useWebRTC s"
  "leftPaddle (sendWebRTCMessage m s) = leftPaddle s"
  "rightPaddle (sendWebRTCMessage m s) = rightPaddle s"
  "net_ball (sendWebRTCMessage m s) = net_ball s"
  "screen (sendWebRTCMessage m s) = screen s"
  "winnerDisplay (sendWebRTCMessage m s) = winnerDisplay s"
  "connectionText (sendWebRTCMessage m s) = connectionText s"
  "joinError (sendWebRTCMessage m s) = joinError s"
  "timers (sendWebRTCMessage m s) = timers s"
  by (simp_all add: sendWebRTCMessage_def)

lemma socket_emit_keeps [simp]:
  "canvas (socket_emit e s) = canvas s"
  "gameActive (socket_emit e s) = gameActive s"
  "isHost (socket_emit e s) = isHost s"
  "currentRoomCode (socket_emit e s) = currentRoomCode s"
  "playerReady (socket_emit e s) = playerReady s"
  "opponentReady (socket_emit e s) = opponentReady s"
  "leftScore (socket_emit e s) = leftScore s"
  "rightScore (socket_emit e s) = rightScore s"
  "peer (socket_emit e s) = peer s"
  "peerConnected (socket_emit e s) = peerConnected s"
  "useWebRTC (socket_emit e s) = useWebRTC s"
  "leftPaddle (socket_emit e s) = leftPaddle s"
  "rightPaddle (socket_emit e s) = rightPaddle s"
  "net_ball (socket_emit e s) = net_ball s"
  "screen (socket_emit e s) = screen s"
  "winnerDisplay (socket_emit e s) = winnerDisplay s"
  "connectionText (socket_emit e s) = connectionText s"
  "joinError (socket_emit e s) = joinError s"
  "timers (socket_emit e s) = timers s"
  by (simp_all add: socket_emit_def)

lemma resetGame_keeps [simp]:
  "canvas (resetGame s) = canvas s"
  "isHost (resetGame s) = isHost s"
  "currentRoomCode (resetGame s) = currentRoomCode s"
  "playerReady (resetGame s) = playerReady s"
  "opponentReady (resetGame s) = opponentReady s"
  "peer (resetGame s) = peer s"
  "peerConnected (resetGame s) = peerConnected s"
  "useWebRTC (resetGame s) = useWebRTC s"
  "leftPaddle (resetGame s) = leftPaddle s"
  "rightPaddle (resetGame s) = rightPaddle s"
  "net_ball (resetGame s) = net_ball s"
  "screen (resetGame s) = screen s"
  "winnerDisplay (resetGame s) = winnerDisplay s"
  "connectionText (resetGame s) = connectionText s"
  "joinError (resetGame s) = joinError s"
  "timers (resetGame s) = timers s"
  "sent (resetGame s) = sent s"
  by (simp_all add: resetGame_def)

lemma destroyPeer_keeps [simp]:
  "canvas (destroyPeer s) = canvas s"
  "gameActive (destroyPeer s) = gameActive s"
  "isHost (destroyPeer s) = isHost s"
  "currentRoomCode (destroyPeer s) = currentRoomCode s"
  "playerReady (destroyPeer s) = playerReady s"
  "opponentReady (destroyPeer s) = opponentReady s"
  "leftScore (destroyPeer s) = leftScore s"
  "rightScore (destroyPeer s) = rightScore s"
  "useWebRTC (destroyPeer s) = useWebRTC s"
  "leftPaddle (destroyPeer s) = leftPaddle s"
  "rightPaddle (destroyPeer s) = rightPaddle s"
  "net_ball (destroyPeer s) = net_ball s"
  "screen (destroyPeer s) = screen s"
  "winnerDisplay (destroyPeer s) = winnerDisplay s"
  "connectionText (destroyPeer s) = connectionText s"
  "joinError (destroyPeer s) = joinError s"
  "timers (destroyPeer s) = timers s"
  "sent (destroyPeer s) = sent s"
  by (simp_all add: destroyPeer_def)

lemma showWaitingScreen_keeps [simp]:
  "canvas (showWaitingScreen s) = canvas s"
  "gameActive (showWaitingScreen s) = gameActive s"
  "isHost (showWaitingScreen s) = isHost s"
  "currentRoomCode (showWaitingScreen s) = currentRoomCode s"
  "playerReady (showWaitingScreen s) = playerReady s"
  "opponentReady (showWaitingScreen s) = opponentReady s"
  "leftScore (showWaitingScreen s) = leftScore s"
  "rightScore (showWaitingScreen s) = rightScore s"
  "peer (showWaitingScreen s) = peer s"
  "peerConnected (showWaitingScreen s) = peerConnected s"
  "useWebRTC (showWaitingScreen s) = useWebRTC s"
  "leftPaddle (showWaitingScreen s) = leftPaddle s"
  "rightPaddle (showWaitingScreen s) = rightPaddle s"
  "net_ball (showWaitingScreen s) = net_ball s"
  "winnerDisplay (showWaitingScreen s) = winnerDisplay s"
  "connectionText (showWaitingScreen s) = connectionText s"
  "joinError (showWaitingScreen s) = joinError s"
  "timers (showWaitingScreen s) = timers s"
  "sent (showWaitingScreen s) = sent s"
  by (simp_all add: showWaitingScreen_def)

lemma updateScore_keeps [simp]:
  "canvas (updateScore l r s) = canvas s"
  "gameActive (updateScore l r s) = gameActive s"
  "isHost (updateScore l r s) = isHost s"
  "currentRoomCode (updateScore l r s) = currentRoomCode s"
  "playerReady (updateScore l r s) = playerReady s"
  "opponentReady (updateScore l r s) = opponentReady s"
  "peer (updateScore l r s) = peer s"
  "peerConnected (updateScore l r s) = peerConnected s"
  "useWebRTC (updateScore l r s) = useWebRTC s"
  "leftPaddle (updateScore l r s) = leftPaddle s"
  "rightPaddle (updateScore l r s) = rightPaddle s"
  "net_ball (updateScore l r s) = net_ball s"
  "screen (updateScore l r s) = screen s"
  "winnerDisplay (updateScore l r s) = winnerDisplay s"
  "connectionText (updateScore l r s) = connectionText s"
  "joinError (updateScore l r s) = joinError s"
  "timers (updateScore l r s) = timers s"
  "sent (updateScore l r s) = sent s"
  by (simp_all add: updateScore_def Let_def split: option.splits)

lemma endGame_keeps [simp]:
  "canvas (endGame m s) = canvas s"
  "isHost (endGame m s) = isHost s"
  "currentRoomCode (endGame m s) = currentRoomCode s"
  "playerReady (endGame m s) = playerReady s"
  "opponentReady (endGame m s) = opponentReady s"
  "leftScore (endGame m s) = leftScore s"
  "rightScore (endGame m s) = rightScore s"
  "peer (endGame m s) = peer s"
  "peerConnected (endGame m s) = peerConnected s"
  "useWebRTC (endGame m s) = useWebRTC s"
  "leftPaddle (endGame m s) = leftPaddle s"
  "rightPaddle (endGame m s) = rightPaddle s"
  "net_ball (endGame m s) = net_ball s"
  "connectionText (endGame m s) = connectionText s"
  "joinError (endGame m s) = joinError s"
  "timers (endGame m s) = timers s"
  by (simp_all add: endGame_def Let_def)

lemma initializeWebRTC_keeps [simp]:
  "canvas (initializeWebRTC i f s) = canvas s"
  "gameActive (initializeWebRTC i f s) = gameActive s"
  "isHost (initializeWebRTC i f s) = isHost s"
  "currentRoomCode (initializeWebRTC i f s) = currentRoomCode s"
  "playerReady (initializeWebRTC i f s) = playerReady s"
  "opponentReady (initializeWebRTC i f s) = opponentReady s"
  "leftScore (initializeWebRTC i f s) = leftScore s"
  "rightScore (initializeWebRTC i f s) = rightScore s"
  "peerConnected (initializeWebRTC i f s) = peerConnected s"
  "leftPaddle (initializeWebRTC i f s) = leftPaddle s"
  "rightPaddle (initializeWebRTC i f s) = rightPaddle s"
  "net_ball (initializeWebRTC i f s) = net_ball s"
  "screen (initializeWebRTC i f s) = screen s"
  "winnerDisplay (initializeWebRTC i f s) = winnerDisplay s"
  "joinError (initializeWebRTC i f s) = joinError s"
  "timers (initializeWebRTC i f s) = timers s"
  "sent (initializeWebRTC i f s) = sent s"
  by (simp_all add: initializeWebRTC_def)

lemma resetGameState_keeps [simp]:
  "canvas (resetGameState r1 r2 s) = canvas s"
  "gameActive (resetGameState r1 r2 s) = gameActive s"
  "isHost (resetGameState r1 r2 s) = isHost s"
  "currentRoomCode (resetGameState r1 r2 s) = currentRoomCode s"
  "playerReady (resetGameState r1 r2 s) = playerReady s"
  "opponentReady (resetGameState r1 r2 s) = opponentReady s"
  "peer (resetGameState r1 r2 s) = peer s"
  "peerConnected (resetGameState r1 r2 s) = peerConnected s"
  "useWebRTC (resetGameState r1 r2 s) = useWebRTC s"
  "screen (resetGameState r1 r2 s) = screen s"
  "winnerDisplay (resetGameState r1 r2 s) = winnerDisplay s"
  "connectionText (resetGameState r1 r2 s) = connectionText s"
  "joinError (resetGameState r1 r2 s) = joinError s"
  "timers (resetGameState r1 r2 s) = timers s"
  "sent (resetGameState r1 r2 s) = sent s"
  by (simp_all add: resetGameState_def)

lemma startGame_keeps [simp]:
  "canvas (startGame r1 r2 s) = canvas s"
  "isHost (startGame r1 r2 s) = isHost s"
  "currentRoomCode (startGame r1 r2 s) = currentRoomCode s"
  "playerReady (startGame r1 r2 s) = playerReady s"
  "opponentReady (startGame r1 r2 s) = opponentReady s"
  "peer (startGame r1 r2 s) = peer s"
  "peerConnected (startGame r1 r2 s) = peerConnected s"
  "useWebRTC (startGame r1 r2 s) = useWebRTC s"
  "winnerDisplay (startGame r1 r2 s) = winnerDisplay s"
  "connectionText (startGame r1 r2 s) = connectionText s"
  "joinError (startGame r1 r2 s) = joinError s"
  "timers (startGame r1 r2 s) = timers s"
  by (simp_all add: startGame_def Let_def)

lemma movePaddles_keeps [simp]:
  "canvas (movePaddles s) = canvas s"
  "gameActive (movePaddles s) = gameActive s"
  "isHost (movePaddles s) = isHost s"
  "currentRoomCode (movePaddles s) = currentRoomCode s"
  "playerReady (movePaddles s) = playerReady s"
  "opponentReady (movePaddles s) = opponentReady s"
  "leftScore (movePaddles s) = leftScore s"
  "rightScore (movePaddles s) = rightScore s"
  "peer (movePaddles s) = peer s"
  "peerConnected (movePaddles s) = peerConnected s"
  "useWebRTC (movePaddles s) = useWebRTC s"
  "net_ball (movePaddles s) = net_ball s"
  "screen (movePaddles s) = screen s"
  "winnerDisplay (movePaddles s) = winnerDisplay s"
  "connectionText (movePaddles s) = connectionText s"
  "joinError (movePaddles s) = joinError s"
  "timers (movePaddles s) = timers s"
  by (simp_all add: movePaddles_def Let_def)

lemma moveBall_keeps [simp]:
  "canvas (moveBall s) = canvas s"
  "gameActive (moveBall s) = gameActive s"
  "isHost (moveBall s) = isHost s"
  "currentRoomCode (moveBall s) = currentRoomCode s"
  "playerReady (moveBall s) = playerReady s"
  "opponentReady (moveBall s) = opponentReady s"
  "leftScore (moveBall s) = leftScore s"
  "rightScore (moveBall s) = rightScore s"
  "peer (moveBall s) = peer s"
  "peerConnected (moveBall s) = peerConnected s"
  "useWebRTC (moveBall s) = useWebRTC s"
  "leftPaddle (moveBall s) = leftPaddle s"
  "rightPaddle (moveBall s) = rightPaddle s"
  "screen (moveBall s) = screen s"
  "winnerDisplay (moveBall s) = winnerDisplay s"
  "connectionText (moveBall s) = connectionText s"
  "joinError (moveBall s) = joinError s"
  "timers (moveBall s) = timers s"
  "sent (moveBall s) = sent s"
  by (simp_all add: moveBall_def)

lemma resetBall_net_keeps [simp]:
  "canvas (resetBall_net d r s) = canvas s"
  "gameActive (resetBall_net d r s) = gameActive s"
  "isHost (resetBall_net d r s) = isHost s"
  "currentRoomCode (resetBall_net d r s) = currentRoomCode s"
  "playerReady (resetBall_net d r s) = playerReady s"
  "opponentReady (resetBall_net d r s) = opponentReady s"
  "leftScore (resetBall_net d r s) = leftScore s"
  "rightScore (resetBall_net d r s) = rightScore s"
  "peer (resetBall_net d r s) = peer s"
  "peerConnected (resetBall_net d r s) = peerConnected s"
  "useWebRTC (resetBall_net d r s) = useWebRTC s"
  "leftPaddle (resetBall_net d r s) = leftPaddle s"
  "rightPaddle (resetBall_net d r s) = rightPaddle s"
  "screen (resetBall_net d r s) = screen s"
  "winnerDisplay (resetBall_net d r s) = winnerDisplay s"
  "connectionText (resetBall_net d r s) = connectionText s"
  "joinError (resetBall_net d r s) = joinError s"
  "timers (resetBall_net d r s) = timers s"
  "sent (resetBall_net d r s) = sent s"
  by (simp_all add: resetBall_net_def)

lemma wallCollision_keeps [simp]:
  "canvas (wallCollision s) = canvas s"
  "gameActive (wallCollision s) = gameActive s"
  "isHost (wallCollision s) = isHost s"
  "currentRoomCode (wallCollision s) = currentRoomCode s"
  "playerReady (wallCollision s) = playerReady s"
  "opponentReady (wallCollision s) = opponentReady s"
  "leftScore (wallCollision s) = leftScore s"
  "rightScore (wallCollision s) = rightScore s"
  "peer (wallCollision s) = peer s"
  "peerConnected (wallCollision s) = peerConnected s"
  "useWebRTC (wallCollision s) = useWebRTC s"
  "leftPaddle (wallCollision s) = leftPaddle s"
  "rightPaddle (wallCollision s) = rightPaddle s"
  "screen (wallCollision s) = screen s"
  "winnerDisplay (wallCollision s) = winnerDisplay s"
  "connectionText (wallCollision s) = connectionText s"
  "joinError (wallCollision s) = joinError s"
  "timers (wallCollision s) = timers s"
  "sent (wallCollision s) = sent s"
  by (simp_all add: wallCollision_def)

lemma leftPaddleCollision_keeps [simp]:
  "canvas (leftPaddleCollision s) = canvas s"
  "gameActive (leftPaddleCollision s) = gameActive s"
  "isHost (leftPaddleCollision s) = isHost s"
  "currentRoomCode (leftPaddleCollision s) = currentRoomCode s"
  "playerReady (leftPaddleCollision s) = playerReady s"
  "opponentReady (leftPaddleCollision s) = opponentReady s"
  "leftScore (leftPaddleCollision s) = leftScore s"
  "rightScore (leftPaddleCollision s) = rightScore s"
  "peer (leftPaddleCollision s) = peer s"
  "peerConnected (leftPaddleCollision s) = peerConnected s"
  "useWebRTC (leftPaddleCollision s) = useWebRTC s"
  "leftPaddle (leftPaddleCollision s) = leftPaddle s"
  "rightPaddle (leftPaddleCollision s) = rightPaddle s"
  "screen (leftPaddleCollision s) = screen s"
  "winnerDisplay (leftPaddleCollision s) = winnerDisplay s"
  "connectionText (leftPaddleCollision s) = connectionText s"
  "joinError (leftPaddleCollision s) = joinError s"
  "timers (leftPaddleCollision s) = timers s"
  "sent (leftPaddleCollision s) = sent s"
  by (simp_all add: leftPaddleCollision_def)

lemma rightPaddleCollision_keeps [simp]:
  "canvas (rightPaddleCollision s) = canvas s"
  "gameActive (rightPaddleCollision s) = gameActive s"
  "isHost (rightPaddleCollision s) = isHost s"
  "currentRoomCode (rightPaddleCollision s) = currentRoomCode s"
  "playerReady (rightPaddleCollision s) = playerReady s"
  "opponentReady (rightPaddleCollision s) = opponentReady s"
  "leftScore (rightPaddleCollision s) = leftScore s"
  "rightScore (rightPaddleCollision s) = rightScore s"
  "peer (rightPaddleCollision s) = peer s"
  "peerConnected (rightPaddleCollision s) = peerConnected s"
  "useWebRTC (rightPaddleCollision s) = useWebRTC s"
  "leftPaddle (rightPaddleCollision s) = leftPaddle s"
  "rightPaddle (rightPaddleCollision s) = rightPaddle s"
  "screen (rightPaddleCollision s) = screen s"
  "winnerDisplay (rightPaddleCollision s) = winnerDisplay s"
  "connectionText (rightPaddleCollision s) = connectionText s"
  "joinError (rightPaddleCollision s) = joinError s"
  "timers (rightPaddleCollision s) = timers s"
  "sent (rightPaddleCollision s) = sent s"
  by (simp_all add: rightPaddleCollision_def)

lemma outOfBounds_keeps [simp]:
  "canvas (outOfBounds r s) = canvas s"
  "gameActive (outOfBounds r s) = gameActive s"
  "isHost (outOfBounds r s) = isHost s"
  "currentRoomCode (outOfBounds r s) = currentRoomCode s"
  "playerReady (outOfBounds r s) = playerReady s"
  "opponentReady (outOfBounds r s) = opponentReady s"
  "peer (outOfBounds r s) = peer s"
  "peerConnected (outOfBounds r s) = peerConnected s"
  "useWebRTC (outOfBounds r s) = useWebRTC s"
  "leftPaddle (outOfBounds r s) = leftPaddle s"
  "rightPaddle (outOfBounds r s) = rightPaddle s"
  "screen (outOfBounds r s) = screen s"
  "winnerDisplay (outOfBounds r s) = winnerDisplay s"
  "connectionText (outOfBounds r s) = connectionText s"
  "joinError (outOfBounds r s) = joinError s"
  "timers (outOfBounds r s) = timers s"
  "sent (outOfBounds r s) = sent s"
  by (simp_all add: outOfBounds_def)

lemma checkCollisions_keeps [simp]:
  "canvas (checkCollisions r s) = canvas s"
  "gameActive (checkCollisions r s) = gameActive s"
  "isHost (checkCollisions r s) = isHost s"
  "currentRoomCode (checkCollisions r s) = currentRoomCode s"
  "playerReady (checkCollisions r s) = playerReady s"
  "opponentReady (checkCollisions r s) = opponentReady s"
  "peer (checkCollisions r s) = peer s"
  "peerConnected (checkCollisions r s) = peerConnected s"
  "useWebRTC (checkCollisions r s) = useWebRTC s"
  "leftPaddle (checkCollisions r s) = leftPaddle s"
  "rightPaddle (checkCollisions r s) = rightPaddle s"
  "screen (checkCollisions r s) = screen s"
  "winnerDisplay (checkCollisions r s) = winnerDisplay s"
  "connectionText (checkCollisions r s) = connectionText s"
  "joinError (checkCollisions r s) = joinError s"
  "timers (checkCollisions r s) = timers s"
  "sent (checkCollisions r s) = sent s"
  by (simp_all add: checkCollisions_def)

lemma hostStep_keeps [simp]:
  "canvas (hostStep r s) = canvas s"
  "gameActive (hostStep r s) = gameActive s"
  "isHost (hostStep r s) = isHost s"
  "currentRoomCode (hostStep r s) = currentRoomCode s"
  "playerReady (hostStep r s) = playerReady s"
  "opponentReady (hostStep r s) = opponentReady s"
  "peer (hostStep r s) = peer s"
  "peerConnected (hostStep r s) = peerConnected s"
  "useWebRTC (hostStep r s) = useWebRTC s"
  "leftPaddle (hostStep r s) = leftPaddle s"
  "rightPaddle (hostStep r s) = rightPaddle s"
  "screen (hostStep r s) = screen s"
  "winnerDisplay (hostStep r s) = winnerDisplay s"
  "connectionText (hostStep r s) = connectionText s"
  "joinError (hostStep r s) = joinError s"
  "timers (hostStep r s) = timers s"
  by (simp_all add: hostStep_def Let_def)

lemma checkWin_keeps [simp]:
  "canvas (checkWin s) = canvas s"
  "isHost (checkWin s) = isHost s"
  "currentRoomCode (checkWin s) = currentRoomCode s"
  "playerReady (checkWin s) = playerReady s"
  "opponentReady (checkWin s) = opponentReady s"
  "leftScore (checkWin s) = leftScore s"
  "rightScore (checkWin s) = rightScore s"
  "peer (checkWin s) = peer s"
  "peerConnected (checkWin s) = peerConnected s"
  "useWebRTC (checkWin s) = useWebRTC s"
  "leftPaddle (checkWin s) = leftPaddle s"
  "rightPaddle (checkWin s) = rightPaddle s"
  "net_ball (checkWin s) = net_ball s"
  "connectionText (checkWin s) = connectionText s"
  "joinError (checkWin s) = joinError s"
  "timers (checkWin s) = timers s"
  by (simp_all add: checkWin_def)

lemma update_keeps [simp]:
  "canvas (update r s) = canvas s"
  "isHost (update r s) = isHost s"
  "currentRoomCode (update r s) = currentRoomCode s"
  "playerReady (update r s) = playerReady s"
  "opponentReady (update r s) = opponentReady s"
  "peer (update r s) = peer s"
  "peerConnected (update r s) = peerConnected s"
  "useWebRTC (update r s) = useWebRTC s"
  "connectionText (update r s) = connectionText s"
  "joinError (update r s) = joinError s"
  "timers (update r s) = timers s"
  by (simp_all add: update_def Let_def)

lemma gameLoop_keeps [simp]:
  "canvas (gameLoop r s) = canvas s"
  "isHost (gameLoop r s) = isHost s"
  "currentRoomCode (gameLoop r s) = currentRoomCode s"
  "playerReady (gameLoop r s) = playerReady s"
  "opponentReady (gameLoop r s) = opponentReady s"
  "peer (gameLoop r s) = peer s"
  "peerConnected (gameLoop r s) = peerConnected s"
  "useWebRTC (gameLoop r s) = useWebRTC s"
  "connectionText (gameLoop r s) = connectionText s"
  "joinError (gameLoop r s) = joinError s"
  "timers (gameLoop r s) = timers s"
  by (simp_all add: gameLoop_def)

lemma backToMenu_keeps [simp]:
  "canvas (backToMenu s) = canvas s"
  "useWebRTC (backToMenu s) = useWebRTC s"
  "leftPaddle (backToMenu s) = leftPaddle s"
  "rightPaddle (backToMenu s) = rightPaddle s"
  "net_ball (backToMenu s) = net_ball s"
  "winnerDisplay (backToMenu s) = winnerDisplay s"
  "connectionText (backToMenu s) = connectionText s"
  "joinError (backToMenu s) = joinError s"
  "timers (backToMenu s) = timers s"
  "sent (backToMenu s) = sent s"
  by (simp_all add: backToMenu_def)

lemma initialBallState_keeps [simp]:
  "canvas (initialBallState s) = canvas s"
  "gameActive (initialBallState s) = gameActive s"
  "isHost (initialBallState s) = isHost s"
  "currentRoomCode (initialBallState s) = currentRoomCode s"
  "playerReady (initialBallState s) = playerReady s"
  "opponentReady (initialBallState s) = opponentReady s"
  "leftScore (initialBallState s) = leftScore s"
  "rightScore (initialBallState s) = rightScore s"
  "peer (initialBallState s) = peer s"
  "peerConnected (initialBallState s) = peerConnected s"
  "useWebRTC (initialBallState s) = useWebRTC s"
  "leftPaddle (initialBallState s) = leftPaddle s"
  "rightPaddle (initialBallState s) = rightPaddle s"
  "net_ball (initialBallState s) = net_ball s"
  "screen (initialBallState s) = screen s"
  "winnerDisplay (initialBallState s) = winnerDisplay s"
  "connectionText (initialBallState s) = connectionText s"
  "joinError (initialBallState s) = joinError s"
  "timers (initialBallState s) = timers s"
  by (simp_all add: initialBallState_def)

lemma setPaddle_keeps [simp]:
  "canvas (setPaddle side position s) = canvas s"
  "gameActive (setPaddle side position s) = gameActive s"
  "isHost (setPaddle side position s) = isHost s"
  "currentRoomCode (setPaddle side position s) = currentRoomCode s"
  "playerReady (setPaddle side position s) = playerReady s"
  "opponentReady (setPaddle side position s) = opponentReady s"
  "leftScore (setPaddle side position s) = leftScore s"
  "rightScore (setPaddle side position s) = rightScore s"
  "peer (setPaddle side position s) = peer s"
  "peerConnected (setPaddle side position s) = peerConnected s"
  "useWebRTC (setPaddle side position s) = useWebRTC s"
  "net_ball (setPaddle side position s) = net_ball s"
  "screen (setPaddle side position s) = screen s"
  "winnerDisplay (setPaddle side position s) = winnerDisplay s"
  "connectionText (setPaddle side position s) = connectionText s"
  "joinError (setPaddle side position s) = joinError s"
  "timers (setPaddle side position s) = timers s"
  "sent (setPaddle side position s) = sent s"
  by (simp_all add: setPaddle_def)

lemma applyBallUpdate_keeps [simp]:
  "canvas (applyBallUpdate b l r s) = canvas s"
  "gameActive (applyBallUpdate b l r s) = gameActive s"
  "isHost (applyBallUpdate b l r s) = isHost s"
  "currentRoomCode (applyBallUpdate b l r s) = currentRoomCode s"
  "playerReady (applyBallUpdate b l r s) = playerReady s"
  "opponentReady (applyBallUpdate b l r s) = opponentReady s"
  "peer (applyBallUpdate b l r s) = peer s"
  "peerConnected (applyBallUpdate b l r s) = peerConnected s"
  "useWebRTC (applyBallUpdate b l r s) = useWebRTC s"
  "leftPaddle (applyBallUpdate b l r s) = leftPaddle s"
  "rightPaddle (applyBallUpdate b l r s) = rightPaddle s"
  "screen (applyBallUpdate b l r s) = screen s"
  "winnerDisplay (applyBallUpdate b l r s) = winnerDisplay s"
  "connectionText (applyBallUpdate b l r s) = connectionText s"
  "joinError (applyBallUpdate b l r s) = joinError s"
  "timers (applyBallUpdate b l r s) = timers s"
  "sent (applyBallUpdate b l r s) = sent s"
  by (simp_all add: applyBallUpdate_def)

subsection \<open>Who simulates the ball\<close>

lemma update_guest:
  assumes "\<not> isHost s"
  shows "net_ball (update r s) = net_ball s"
    and "leftScore (update r s) = leftScore s"
    and "rightScore (update r s) = rightScore s"
  using assms by (simp_all add: update_def Let_def)

lemma gameLoop_guest:
  assumes "\<not> isHost s"
  shows "net_ball (gameLoop r s) = net_ball s"
    and "leftScore (gameLoop r s) = leftScore s"
    and "rightScore (gameLoop r s) = rightScore s"
  using assms by (simp_all add: gameLoop_def update_guest)

lemma update_host:
  assumes "isHost s"
  shows "net_ball (update r s) = net_ball (checkCollisions r (moveBall (movePaddles s)))"
    and "leftScore (update r s) = leftScore (checkCollisions r (moveBall (movePaddles s)))"
    and "rightScore (update r s) = rightScore (checkCollisions r (moveBall (movePaddles s)))"
  using assms by (simp_all add: update_def hostStep_def Let_def)

lemma applyBallUpdate_guest:
  assumes "\<not> isHost s"
  shows "net_ball (applyBallUpdate b l r s) = b"
    and "leftScore (applyBallUpdate b l r s) = (case l of None \<Rightarrow> leftScore s | Some v \<Rightarrow> v)"
    and "rightScore (applyBallUpdate b l r s) = (case r of None \<Rightarrow> rightScore s | Some v \<Rightarrow> v)"
  using assms by (simp_all add: applyBallUpdate_def updateScore_def Let_def split: option.splits)

lemma applyBallUpdate_host: "isHost s \<Longrightarrow> applyBallUpdate b l r s = s"
  by (simp add: applyBallUpdate_def)

lemma on_ballUpdate_direct_in_use:
  "useWebRTC s \<Longrightarrow> peerConnected s \<Longrightarrow> on_ballUpdate b l r s = s"
  by (simp add: on_ballUpdate_def)

lemma on_ballUpdate_fallback:
  "\<not> useWebRTC s \<or> \<not> peerConnected s \<Longrightarrow> on_ballUpdate b l r s = applyBallUpdate b l r s"
  by (auto simp add: on_ballUpdate_def)

subsection \<open>The log of the direct channel\<close>

lemma direct_socket_emit [simp]: "direct (socket_emit e s) = direct s"
  by (simp add: direct_def socket_emit_def)

lemma direct_sendWebRTCMessage:
  "direct (sendWebRTCMessage m s) =
     (if peer s \<noteq> None \<and> peerConnected s then direct s @ [Direct m] else direct s)"
  by (simp add: direct_def sendWebRTCMessage_def)

lemma direct_same: "sent t = sent s \<Longrightarrow> direct t = direct s"
  by (simp add: direct_def)

text \<open>Functions that choose the channel by the test \<open>useWebRTC && peerConnected\<close>.\<close>

lemma endGame_direct:
  "\<not> useWebRTC s \<or> \<not> peerConnected s \<Longrightarrow> direct (endGame m s) = direct s"
  by (auto simp add: endGame_def Let_def direct_def socket_emit_def)

lemma startGame_direct:
  "\<not> useWebRTC s \<or> \<not> peerConnected s \<Longrightarrow> direct (startGame r1 r2 s) = direct s"
  by (auto simp add: startGame_def Let_def direct_def socket_emit_def resetGameState_def)

lemma movePaddles_direct:
  "\<not> useWebRTC s \<or> \<not> peerConnected s \<Longrightarrow> direct (movePaddles s) = direct s"
  by (auto simp add: movePaddles_def Let_def direct_def socket_emit_def)

lemma initialBallState_direct:
  "\<not> useWebRTC s \<or> \<not> peerConnected s \<Longrightarrow> direct (initialBallState s) = direct s"
  by (auto simp add: initialBallState_def)

lemma hostStep_direct:
  "\<not> useWebRTC s \<or> \<not> peerConnected s \<Longrightarrow> direct (hostStep r s) = direct s"
  by (auto simp add: hostStep_def Let_def intro: direct_same)

lemma checkWin_direct:
  "\<not> useWebRTC s \<or> \<not> peerConnected s \<Longrightarrow> direct (checkWin s) = direct s"
  by (simp add: checkWin_def endGame_direct)

text \<open>After the fallback the messages of a frame go to the relay.\<close>

lemma movePaddles_relay:
  assumes "\<not> useWebRTC s \<or> \<not> peerConnected s"
  shows "sent (movePaddles s) =
           sent s @ [Relay (PaddleMoveRelay (currentRoomCode s)
                      (if isHost s then p_y (leftPaddle (movePaddles s))
                       else p_y (rightPaddle (movePaddles s))))]"
  using assms by (auto simp add: movePaddles_def Let_def socket_emit_def)

lemma hostStep_relay:
  assumes "\<not> useWebRTC s \<or> \<not> peerConnected s"
  shows "sent (hostStep r s) =
           sent s @ [Relay (BallMove (currentRoomCode s) (net_ball (hostStep r s))
                      (leftScore (hostStep r s)) (rightScore (hostStep r s)))]"
  using assms by (auto simp add: hostStep_def Let_def socket_emit_def)

lemma update_direct:
  assumes "\<not> useWebRTC s \<or> \<not> peerConnected s"
  shows "direct (update r s) = direct s"
proof -
  let ?p = "movePaddles s"
  let ?h = "if isHost ?p then hostStep r ?p else ?p"
  have p: "direct ?p = direct s" using assms by (rule movePaddles_direct)
  have fp: "\<not> useWebRTC ?p \<or> \<not> peerConnected ?p" using assms by simp
  have h: "direct ?h = direct s" using p hostStep_direct [OF fp] by simp
  have fh: "\<not> useWebRTC ?h \<or> \<not> peerConnected ?h" using assms by simp
  show ?thesis using h checkWin_direct [OF fh] by (simp add: update_def Let_def)
qed

lemmas handler_defs =
  on_gameCreated_def on_gameJoined_def on_joinError_def on_playerJoined_def
  on_webrtcSignal_def on_playerLeft_def on_gameStart_def on_timeout_def
  on_opponentPaddleMove_def on_ballUpdate_def on_sendBallUpdate_def on_gameEnded_def
  on_gameRestarted_def on_peer_signal_def on_peer_connect_def on_peer_error_def
  on_peer_close_def createGame_def showJoinRoom_def joinGame_def playerReadyUp_def
  restartGame_def handleKeyDown_def handleKeyUp_def

lemma destroyPeer_peer [simp]:
  "peer (destroyPeer s) = None"
  "peerConnected (destroyPeer s) = (peerConnected s \<and> peer s = None)"
  by (auto simp add: destroyPeer_def)

lemma backToMenu_peer [simp]:
  "peer (backToMenu s) = None"
  "peerConnected (backToMenu s) = (peerConnected s \<and> peer s = None)"
  by (simp_all add: backToMenu_def)

lemma handleWebRTCMessage_useWebRTC [simp]:
  "useWebRTC (handleWebRTCMessage m s) = useWebRTC s"
  by (cases m) simp_all

lemma handleWebRTCMessage_peerConnected [simp]:
  "peerConnected (handleWebRTCMessage m s) = peerConnected s"
  by (cases m) simp_all

lemma step_useWebRTC: "\<not> useWebRTC s \<Longrightarrow> \<not> useWebRTC (step e s)"
  by (cases e) (simp_all add: handler_defs Let_def)

lemma step_peerConnected:
  "\<not> peerConnected s \<Longrightarrow> e \<noteq> PeerConnect \<Longrightarrow> \<not> peerConnected (step e s)"
  by (cases e) (simp_all add: handler_defs Let_def)

lemma handleWebRTCMessage_direct:
  "m \<noteq> RequestBallUpdate \<or> \<not> peerConnected s \<Longrightarrow> direct (handleWebRTCMessage m s) = direct s"
  by (cases m) (auto simp add: direct_sendWebRTCMessage intro: direct_same)

lemma step_direct:
  assumes "\<not> useWebRTC s \<and> \<not> answersPeer e \<or> \<not> peerConnected s \<and> e \<noteq> PeerConnect"
  shows "direct (step e s) = direct s"
proof -
  have f: "\<not> useWebRTC s \<or> \<not> peerConnected s" using assms by blast
  show ?thesis
  proof (cases e)
    case PlayerLeft
    have "direct (on_playerLeft s) =
            direct (if gameActive s then endGame (Some ''Opponent left the game'') s else backToMenu s)"
      by (rule direct_same) (simp add: on_playerLeft_def)
    also have "\<dots> = direct s"
      using endGame_direct [OF f] by (auto intro: direct_same)
    finally show ?thesis using PlayerLeft by simp
  next
    case (GameStart r1 r2)
    have "direct (on_gameStart r1 r2 s) = direct (startGame r1 r2 s)"
      by (rule direct_same) (simp add: on_gameStart_def Let_def)
    then show ?thesis using GameStart startGame_direct [OF f] by simp
  next
    case Timeout
    have "\<not> useWebRTC (s\<lparr>timers := timers s - 1\<rparr>) \<or> \<not> peerConnected (s\<lparr>timers := timers s - 1\<rparr>)"
      using f by simp
    then have "direct (initialBallState (s\<lparr>timers := timers s - 1\<rparr>)) = direct (s\<lparr>timers := timers s - 1\<rparr>)"
      by (rule initialBallState_direct)
    then show ?thesis using Timeout by (simp add: on_timeout_def direct_def)
  next
    case (PeerData m)
    then have "m \<noteq> RequestBallUpdate \<or> \<not> peerConnected s"
      using assms by (auto simp add: answersPeer_def)
    then show ?thesis using PeerData by (simp add: handleWebRTCMessage_direct)
  next
    case PeerConnect
    then show ?thesis using assms by (simp add: answersPeer_def)
  next
    case (Frame r)
    then show ?thesis using update_direct [OF f] by (simp add: gameLoop_def)
  qed (auto simp add: handler_defs Let_def intro: direct_same)
qed

lemma run_useWebRTC: "\<not> useWebRTC s \<Longrightarrow> \<not> useWebRTC (run es s)"
  by (induction es arbitrary: s) (simp_all add: step_useWebRTC)

lemma run_direct_fallback:
  "\<not> useWebRTC s \<Longrightarrow> \<forall>e \<in> set es. \<not> answersPeer e \<Longrightarrow> direct (run es s) = direct s"
proof (induction es arbitrary: s)
  case Nil
  then show ?case by simp
next
  case (Cons e es)
  have "direct (step e s) = direct s" using Cons.prems by (simp add: step_direct)
  moreover have "direct (run es (step e s)) = direct (step e s)"
    using Cons.prems by (intro Cons.IH step_useWebRTC) simp_all
  ultimately show ?case by simp
qed

lemma run_direct_unconnected:
  "\<not> peerConnected s \<Longrightarrow> PeerConnect \<notin> set es \<Longrightarrow> direct (run es s) = direct s"
proof (induction es arbitrary: s)
  case Nil
  then show ?case by simp
next
  case (Cons e es)
  have ne: "e \<noteq> PeerConnect" using Cons.prems by auto
  have "direct (step e s) = direct s" using Cons.prems ne by (simp add: step_direct)
  moreover have "direct (run es (step e s)) = direct (step e s)"
    using Cons.prems ne by (intro Cons.IH step_peerConnected) simp_all
  ultimately show ?case by simp
qed

subsection \<open>Paddles\<close>

lemma keepInBounds_range:
  assumes "paddleHeight \<le> height cv"
  shows "0 \<le> p_y (keepInBounds cv p)" and "p_y (keepInBounds cv p) \<le> height cv - paddleHeight"
  using assms by (simp_all add: keepInBounds_def Let_def)

lemma movePaddles_paddles:
  "leftPaddle (movePaddles s) =
     keepInBounds (canvas s) ((leftPaddle s)\<lparr>p_y := p_y (leftPaddle s) + p_dy (leftPaddle s)\<rparr>)"
  "rightPaddle (movePaddles s) =
     keepInBounds (canvas s) ((rightPaddle s)\<lparr>p_y := p_y (rightPaddle s) + p_dy (rightPaddle s)\<rparr>)"
  by (simp_all add: movePaddles_def Let_def sendWebRTCMessage_def socket_emit_def)

lemma movePaddles_bounds:
  assumes "paddleHeight \<le> height (canvas s)"
  shows "0 \<le> p_y (leftPaddle (movePaddles s))"
    and "p_y (leftPaddle (movePaddles s)) \<le> height (canvas s) - paddleHeight"
    and "0 \<le> p_y (rightPaddle (movePaddles s))"
    and "p_y (rightPaddle (movePaddles s)) \<le> height (canvas s) - paddleHeight"
  using assms by (simp_all add: movePaddles_paddles keepInBounds_range)

subsection \<open>The ball on the host\<close>

lemma paddleHit_fields [simp]:
  "b_x (paddleHit py b) = b_x b" "b_y (paddleHit py b) = b_y b"
  "b_speed (paddleHit py b) = b_speed b"
  "b_dx (paddleHit py b) = (if \<bar>b_dx b\<bar> < 15 then - b_dx b * 1.05 else - b_dx b)"
  "b_dy (paddleHit py b) = 10 * ((b_y b - py) / paddleHeight - 0.5)"
  by (simp_all add: paddleHit_def Let_def)

lemma wallCollision_ball [simp]:
  "b_x (net_ball (wallCollision s)) = b_x (net_ball s)"
  "b_y (net_ball (wallCollision s)) = b_y (net_ball s)"
  "b_dx (net_ball (wallCollision s)) = b_dx (net_ball s)"
  "b_speed (net_ball (wallCollision s)) = b_speed (net_ball s)"
  "b_dy (net_ball (wallCollision s)) =
     (if b_y (net_ball s) \<le> 0 \<or> b_y (net_ball s) + ballSize \<ge> height (canvas s)
      then - b_dy (net_ball s) else b_dy (net_ball s))"
  by (simp_all add: wallCollision_def)

lemma leftPaddleCollision_ball [simp]:
  "b_x (net_ball (leftPaddleCollision s)) = b_x (net_ball s)"
  "b_y (net_ball (leftPaddleCollision s)) = b_y (net_ball s)"
  "b_speed (net_ball (leftPaddleCollision s)) = b_speed (net_ball s)"
  by (simp_all add: leftPaddleCollision_def)

lemma rightPaddleCollision_ball [simp]:
  "b_x (net_ball (rightPaddleCollision s)) = b_x (net_ball s)"
  "b_y (net_ball (rightPaddleCollision s)) = b_y (net_ball s)"
  "b_speed (net_ball (rightPaddleCollision s)) = b_speed (net_ball s)"
  by (simp_all add: rightPaddleCollision_def)

lemma moveBall_ball [simp]:
  "b_x (net_ball (moveBall s)) = b_x (net_ball s) + b_dx (net_ball s)"
  "b_y (net_ball (moveBall s)) = b_y (net_ball s) + b_dy (net_ball s)"
  "b_dx (net_ball (moveBall s)) = b_dx (net_ball s)"
  "b_dy (net_ball (moveBall s)) = b_dy (net_ball s)"
  "b_speed (net_ball (moveBall s)) = b_speed (net_ball s)"
  by (simp_all add: moveBall_def)

lemma paddleHit_speeds:
  assumes "hostBallSpeeds b" and "b_y b + ballSize \<ge> py" and "b_y b \<le> py + paddleHeight"
  shows "hostBallSpeeds (paddleHit py b)"
proof -
  have "\<bar>10 * ((b_y b - py) / paddleHeight - 0.5)\<bar> \<le> 6.5"
    using assms(2,3) unfolding paddleHeight_def ballSize_def by argo
  then show ?thesis
    using assms(1) by (auto simp add: hostBallSpeeds_def)
qed

lemma wallCollision_speeds:
  "hostBallSpeeds (net_ball s) \<Longrightarrow> hostBallSpeeds (net_ball (wallCollision s))"
  by (simp add: hostBallSpeeds_def)

lemma leftPaddleCollision_speeds:
  "hostBallSpeeds (net_ball s) \<Longrightarrow> hostBallSpeeds (net_ball (leftPaddleCollision s))"
  by (simp add: leftPaddleCollision_def paddleHit_speeds)

lemma rightPaddleCollision_speeds:
  "hostBallSpeeds (net_ball s) \<Longrightarrow> hostBallSpeeds (net_ball (rightPaddleCollision s))"
  by (simp add: rightPaddleCollision_def paddleHit_speeds)

lemma outOfBounds_speeds:
  "hostBallSpeeds (net_ball s) \<Longrightarrow> hostBallSpeeds (net_ball (outOfBounds r s))"
  by (simp add: outOfBounds_def resetBall_net_def hostBallSpeeds_def)

lemma moveBall_speeds:
  "hostBallSpeeds (net_ball s) \<Longrightarrow> hostBallSpeeds (net_ball (moveBall s))"
  by (simp add: hostBallSpeeds_def)

lemma hostStep_speeds:
  assumes "hostBallSpeeds (net_ball s)"
  shows "hostBallSpeeds (net_ball (checkCollisions r (moveBall s)))"
  unfolding checkCollisions_def
  by (intro outOfBounds_speeds rightPaddleCollision_speeds leftPaddleCollision_speeds
      wallCollision_speeds moveBall_speeds assms)

lemma resetGameState_speeds: "hostBallSpeeds (net_ball (resetGameState r1 r2 s))"
  by (simp add: resetGameState_def hostBallSpeeds_def)


lemma outOfBounds_left_out:
  assumes "b_x (net_ball s) < 0"
  shows "rightScore (outOfBounds r s) = rightScore s + 1"
    and "leftScore (outOfBounds r s) = leftScore s"
    and "net_ball (outOfBounds r s) =
           (net_ball s)\<lparr>b_x := width (canvas s) / 2, b_y := height (canvas s) / 2,
                        b_dx := b_speed (net_ball s),
                        b_dy := b_speed (net_ball s) * (if r > 0.5 then 1 else -1)\<rparr>"
  using assms by (simp_all add: outOfBounds_def resetBall_net_def)

lemma outOfBounds_right_out:
  assumes "width (canvas s) < b_x (net_ball s)" and "0 \<le> b_x (net_ball s)"
  shows "leftScore (outOfBounds r s) = leftScore s + 1"
    and "rightScore (outOfBounds r s) = rightScore s"
    and "net_ball (outOfBounds r s) =
           (net_ball s)\<lparr>b_x := width (canvas s) / 2, b_y := height (canvas s) / 2,
                        b_dx := - b_speed (net_ball s),
                        b_dy := b_speed (net_ball s) * (if r > 0.5 then 1 else -1)\<rparr>"
  using assms by (simp_all add: outOfBounds_def resetBall_net_def)

lemma outOfBounds_inside:
  "0 \<le> b_x (net_ball s) \<Longrightarrow> b_x (net_ball s) \<le> width (canvas s) \<Longrightarrow> outOfBounds r s = s"
  by (simp add: outOfBounds_def)

lemma checkCollisions_point_right:
  assumes "b_x (net_ball s) < 0"
  shows "rightScore (checkCollisions r s) = rightScore s + 1"
    and "leftScore (checkCollisions r s) = leftScore s"
    and "b_x (net_ball (checkCollisions r s)) = width (canvas s) / 2"
    and "b_y (net_ball (checkCollisions r s)) = height (canvas s) / 2"
    and "b_dx (net_ball (checkCollisions r s)) = b_speed (net_ball s)"
    and "b_dy (net_ball (checkCollisions r s)) = b_speed (net_ball s) * (if r > 0.5 then 1 else -1)"
  using assms by (simp_all add: checkCollisions_def outOfBounds_left_out)

lemma checkCollisions_point_left:
  assumes "width (canvas s) < b_x (net_ball s)" and "0 \<le> b_x (net_ball s)"
  shows "leftScore (checkCollisions r s) = leftScore s + 1"
    and "rightScore (checkCollisions r s) = rightScore s"
    and "b_x (net_ball (checkCollisions r s)) = width (canvas s) / 2"
    and "b_y (net_ball (checkCollisions r s)) = height (canvas s) / 2"
    and "b_dx (net_ball (checkCollisions r s)) = - b_speed (net_ball s)"
    and "b_dy (net_ball (checkCollisions r s)) = b_speed (net_ball s) * (if r > 0.5 then 1 else -1)"
  using assms by (simp_all add: checkCollisions_def outOfBounds_right_out)

lemma checkCollisions_left_hit:
  assumes "b_x (net_ball s) \<le> p_x (leftPaddle s) + paddleWidth"
    and "b_y (net_ball s) + ballSize \<ge> p_y (leftPaddle s)"
    and "b_y (net_ball s) \<le> p_y (leftPaddle s) + paddleHeight"
    and "b_dx (net_ball s) < 0"
    and "b_x (net_ball s) + ballSize < p_x (rightPaddle s)"
    and "0 \<le> b_x (net_ball s)" and "b_x (net_ball s) \<le> width (canvas s)"
  shows "b_dx (net_ball (checkCollisions r s)) =
           (if \<bar>b_dx (net_ball s)\<bar> < 15 then - b_dx (net_ball s) * 1.05 else - b_dx (net_ball s))"
proof -
  let ?l = "leftPaddleCollision (wallCollision s)"
  have l: "net_ball ?l = paddleHit (p_y (leftPaddle s)) (net_ball (wallCollision s))"
    using assms(1-4) by (simp add: leftPaddleCollision_def)
  have r: "rightPaddleCollision ?l = ?l"
    using assms(5) by (simp add: rightPaddleCollision_def)
  have o: "outOfBounds r ?l = ?l"
    using assms(6,7) by (simp add: outOfBounds_inside)
  show ?thesis by (simp add: checkCollisions_def r o l)
qed

lemma checkCollisions_right_hit:
  assumes "b_x (net_ball s) + ballSize \<ge> p_x (rightPaddle s)"
    and "b_y (net_ball s) + ballSize \<ge> p_y (rightPaddle s)"
    and "b_y (net_ball s) \<le> p_y (rightPaddle s) + paddleHeight"
    and "b_dx (net_ball s) > 0"
    and "0 \<le> b_x (net_ball s)" and "b_x (net_ball s) \<le> width (canvas s)"
  shows "b_dx (net_ball (checkCollisions r s)) =
           (if \<bar>b_dx (net_ball s)\<bar> < 15 then - b_dx (net_ball s) * 1.05 else - b_dx (net_ball s))"
proof -
  let ?l = "leftPaddleCollision (wallCollision s)"
  have l: "?l = wallCollision s"
    using assms(4) by (simp add: leftPaddleCollision_def)
  have r: "net_ball (rightPaddleCollision ?l) =
             paddleHit (p_y (rightPaddle s)) (net_ball (wallCollision s))"
    using assms(1-4) by (simp add: l rightPaddleCollision_def)
  have o: "outOfBounds r (rightPaddleCollision ?l) = rightPaddleCollision ?l"
    using assms(5,6) by (simp add: outOfBounds_inside)
  show ?thesis by (simp add: checkCollisions_def o r)
qed


subsection \<open>A peer that leaves\<close>

lemma on_playerLeft_active:
  assumes "gameActive s"
  shows "\<not> gameActive (on_playerLeft s)"
    and "screen (on_playerLeft s) = GameOverScreen"
    and "winnerDisplay (on_playerLeft s) = ''Opponent left the game''"
    and "peer (on_playerLeft s) = None"
    and "peerConnected (on_playerLeft s) = (peerConnected s \<and> peer s = None)"
    and "leftScore (on_playerLeft s) = leftScore s"
    and "rightScore (on_playerLeft s) = rightScore s"
  using assms by (simp_all add: on_playerLeft_def endGame_def Let_def sendWebRTCMessage_def socket_emit_def)

text \<open>
  A second run of the same handler finds the game inactive and goes back to
  the menu.
\<close>

lemma on_playerLeft_again:
  assumes "gameActive s"
  shows "screen (on_playerLeft (on_playerLeft s)) = MenuScreen"
proof -
  let ?t = "on_playerLeft s"
  have "\<not> gameActive ?t" using assms by (rule on_playerLeft_active(1))
  then have "on_playerLeft ?t = destroyPeer (backToMenu ?t)"
    by (simp add: on_playerLeft_def)
  then show ?thesis by (simp add: backToMenu_def)
qed

subsection \<open>Evaluating example sessions\<close>

lemmas net_eval =
  handler_defs loaded_def page_def startGame_def resetGameState_def initializeWebRTC_def
  showWaitingScreen_def sendWebRTCMessage_def socket_emit_def Let_def
  moveBall_def checkCollisions_def wallCollision_def leftPaddleCollision_def
  rightPaddleCollision_def outOfBounds_def resetBall_net_def paddleHit_def
  paddleHeight_def paddleWidth_def ballSize_def applyBallUpdate_def updateScore_def
  direct_def

lemma hosting_fields:
  "isHost hosting" "gameActive hosting" "useWebRTC hosting" "peerConnected hosting"
  "peer hosting = Some False" "canvas hosting = page"
  "leftScore hosting = 0" "rightScore hosting = 0"
  "leftPaddle hosting = \<lparr>p_x = 50, p_y = 250, p_dy = 0, p_speed = 8\<rparr>"
  "rightPaddle hosting = \<lparr>p_x = 735, p_y = 250, p_dy = 0, p_speed = 8\<rparr>"
  "net_ball hosting = \<lparr>b_x = 400, b_y = 300, b_dx = -5, b_dy = -5, b_speed = 5\<rparr>"
  "screen hosting = GameScreen" "sent hosting = []" "currentRoomCode hosting = Some ''ROOM''"
  by (simp_all add: hosting_def net_eval)

lemma fallen_fields:
  "isHost fallen" "gameActive fallen" "\<not> useWebRTC fallen" "peerConnected fallen"
  "peer fallen = Some False" "leftScore fallen = 0" "rightScore fallen = 0"
  "screen fallen = GameScreen" "sent fallen = []"
  "net_ball fallen = \<lparr>b_x = 400, b_y = 300, b_dx = -5, b_dy = -5, b_speed = 5\<rparr>"
  "leftPaddle fallen = \<lparr>p_x = 50, p_y = 250, p_dy = 0, p_speed = 8\<rparr>"
  "canvas fallen = page" "currentRoomCode fallen = Some ''ROOM''"
  by (simp_all add: fallen_def on_webrtcSignal_def hosting_fields)

lemma guesting_fields:
  "\<not> isHost guesting" "gameActive guesting" "useWebRTC guesting" "peerConnected guesting"
  "peer guesting = Some True" "leftScore guesting = 0" "rightScore guesting = 0"
  "net_ball guesting = \<lparr>b_x = 400, b_y = 300, b_dx = -5, b_dy = -5, b_speed = 5\<rparr>"
  "sent guesting = [Direct RequestBallUpdate]"
  by (simp_all add: guesting_def net_eval)

subsection \<open>A peer that leaves during a game\<close>

lemma playerLeft_event_active:
  assumes "gameActive s"
  shows "screen (playerLeft_event s) = MenuScreen"
    and "\<not> isHost (playerLeft_event s)"
    and "currentRoomCode (playerLeft_event s) = None"
    and "\<not> gameActive (playerLeft_event s)"
    and "peer (playerLeft_event s) = None"
    and "winnerDisplay (playerLeft_event s) = ''Opponent left the game''"
proof -
  let ?t = "on_playerLeft s"
  have "\<not> gameActive ?t" using assms by (rule on_playerLeft_active(1))
  then have e: "playerLeft_event s = destroyPeer (backToMenu ?t)"
    by (simp add: playerLeft_event_def on_playerLeft_def)
  show "screen (playerLeft_event s) = MenuScreen" by (simp add: e backToMenu_def)
  show "\<not> isHost (playerLeft_event s)" by (simp add: e backToMenu_def)
  show "currentRoomCode (playerLeft_event s) = None" by (simp add: e backToMenu_def)
  show "\<not> gameActive (playerLeft_event s)" by (simp add: e backToMenu_def resetGame_def)
  show "peer (playerLeft_event s) = None" by (simp add: e)
  show "winnerDisplay (playerLeft_event s) = ''Opponent left the game''"
    using assms by (simp add: e on_playerLeft_active(3))
qed

text \<open>
  C9 says that a peer-left event that arrives while the game is active ends the
  session at once with the disconnect message displayed, and releases the
  direct channel. One run of the handler does that (\<open>on_playerLeft_active\<close>):
  the game is inactive, the game-over screen shows the message, \<open>peer\<close> is
  \<open>null\<close>. But the handler is registered twice, so the event runs it twice,
  and the second run finds the game inactive and takes the other branch,
  \<open>backToMenu\<close>. For the host of a running game the event ends on the menu
  screen, not on the game-over screen with the message, and the client is no
  longer host and has no room code.
\<close>

theorem opponent_left_returns_to_menu:
  "gameActive hosting \<and> screen hosting = GameScreen
   \<and> screen (step PlayerLeft hosting) = GameOverScreen
   \<and> winnerDisplay (step PlayerLeft hosting) = ''Opponent left the game''
   \<and> screen (playerLeft_event hosting) = MenuScreen
   \<and> screen (playerLeft_event hosting) \<noteq> GameOverScreen
   \<and> \<not> isHost (playerLeft_event hosting)
   \<and> currentRoomCode (playerLeft_event hosting) = None"
  using playerLeft_event_active [of hosting] on_playerLeft_active [of hosting]
  by (simp add: hosting_fields)

subsection \<open>Authority over the ball\<close>

text \<open>
  C7, as stated, fails: a guest whose direct channel is in use ignores a ball
  update that arrives over the relay; neither the ball nor the score of the
  message is taken.
\<close>

theorem ball_authority_counterexample:
  "\<not> isHost guesting \<and>
   net_ball (step (BallUpdateRelay far_ball (Some 3) (Some 4)) guesting) \<noteq> far_ball \<and>
   leftScore (step (BallUpdateRelay far_ball (Some 3) (Some 4)) guesting) \<noteq> 3"
  by (simp add: guesting_fields on_ballUpdate_def far_ball_def)

text \<open>
  C7, amended. In a frame the guest changes neither the ball nor the scores,
  and the host's ball and scores are those of its simulation step. A ball
  update that arrives over the direct channel is applied verbatim by the guest:
  the ball, and each score the message carries. One that arrives over the relay
  is applied in the same way only while the direct channel is not in use
  (\<open>useWebRTC\<close> false or the peer not connected) and is ignored while it is.
  The host ignores received ball state on both channels.
\<close>

theorem ball_authority:
  "(\<not> isHost s \<longrightarrow>
      net_ball (step (Frame r) s) = net_ball s \<and>
      leftScore (step (Frame r) s) = leftScore s \<and>
      rightScore (step (Frame r) s) = rightScore s)
   \<and> (isHost s \<and> gameActive s \<longrightarrow>
      net_ball (step (Frame r) s) = net_ball (checkCollisions r (moveBall (movePaddles s))) \<and>
      leftScore (step (Frame r) s) = leftScore (checkCollisions r (moveBall (movePaddles s))) \<and>
      rightScore (step (Frame r) s) = rightScore (checkCollisions r (moveBall (movePaddles s))))
   \<and> (\<not> isHost s \<longrightarrow>
      net_ball (step (PeerData (BallUpdate b left right)) s) = b \<and>
      leftScore (step (PeerData (BallUpdate b left right)) s) =
        (case left of None \<Rightarrow> leftScore s | Some v \<Rightarrow> v) \<and>
      rightScore (step (PeerData (BallUpdate b left right)) s) =
        (case right of None \<Rightarrow> rightScore s | Some v \<Rightarrow> v))
   \<and> (\<not> isHost s \<and> (\<not> useWebRTC s \<or> \<not> peerConnected s) \<longrightarrow>
      net_ball (step (BallUpdateRelay b left right) s) = b \<and>
      leftScore (step (BallUpdateRelay b left right) s) =
        (case left of None \<Rightarrow> leftScore s | Some v \<Rightarrow> v) \<and>
      rightScore (step (BallUpdateRelay b left right) s) =
        (case right of None \<Rightarrow> rightScore s | Some v \<Rightarrow> v))
   \<and> (useWebRTC s \<and> peerConnected s \<longrightarrow> step (BallUpdateRelay b left right) s = s)
   \<and> (isHost s \<longrightarrow>
      step (PeerData (BallUpdate b left right)) s = s \<and>
      step (BallUpdateRelay b left right) s = s)"
  by (auto simp add: gameLoop_def update_guest update_host applyBallUpdate_guest
      applyBallUpdate_host on_ballUpdate_def)

theorem ball_authority_witness:
  "\<not> isHost guesting \<and> net_ball (step (Frame 0) guesting) = net_ball guesting
   \<and> isHost hosting \<and> gameActive hosting
   \<and> net_ball (step (Frame 0) hosting) = net_ball (checkCollisions 0 (moveBall (movePaddles hosting)))
   \<and> net_ball (step (PeerData (BallUpdate far_ball (Some 3) None)) guesting) = far_ball
   \<and> leftScore (step (PeerData (BallUpdate far_ball (Some 3) None)) guesting) = 3
   \<and> rightScore (step (PeerData (BallUpdate far_ball (Some 3) None)) guesting) = 0
   \<and> \<not> isHost (step PeerError guesting) \<and> \<not> useWebRTC (step PeerError guesting)
   \<and> net_ball (step (BallUpdateRelay far_ball (Some 3) None) (step PeerError guesting)) = far_ball
   \<and> useWebRTC guesting \<and> peerConnected guesting
   \<and> step (BallUpdateRelay far_ball (Some 3) None) guesting = guesting
   \<and> step (PeerData (BallUpdate far_ball (Some 3) None)) hosting = hosting
   \<and> step (BallUpdateRelay far_ball (Some 3) None) hosting = hosting"
  using ball_authority [of guesting 0 far_ball "Some 3" None]
    ball_authority [of hosting 0 far_ball "Some 3" None]
    ball_authority [of "step PeerError guesting" 0 far_ball "Some 3" None]
  by (simp add: guesting_fields hosting_fields on_peer_error_def)

subsection \<open>Fallback to the relay\<close>

text \<open>
  C8, as stated, fails: after \<open>peer.signal\<close> threw, the host has fallen back
  (\<open>useWebRTC\<close> is false) but its peer is still connected, and it answers a
  request for the ball state that arrives over the direct channel on the
  direct channel.
\<close>

theorem fallback_counterexample:
  "\<not> useWebRTC fallen \<and> gameActive fallen \<and> direct fallen = [] \<and>
   direct (step (PeerData RequestBallUpdate) fallen) =
     [Direct (BallUpdate (net_ball fallen) (Some 0) (Some 0))]"
  by (simp add: fallen_fields direct_def sendWebRTCMessage_def)

text \<open>
  C8, amended. A direct-channel error or close clears \<open>useWebRTC\<close>, and so
  does a failure of \<open>peer.signal\<close>; none of them changes \<open>gameActive\<close> or the
  screen. No later event sets \<open>useWebRTC\<close> again. From then on every message
  the client originates (paddle and ball updates of a frame, the initial ball
  state, the request at game start, game over) goes to the relay: the log of
  the direct channel grows only in the two handlers that answer a still
  connected peer on its own channel (the request sent on connect and the reply
  to a request for the ball state). After an error or close the peer is not
  connected, and nothing at all is sent on the direct channel unless a later
  connect event arrives. The paddle update and the host's ball update of a
  frame are then emitted on the socket.
\<close>

theorem fallback_permanent:
  "\<not> useWebRTC (step PeerError s) \<and> \<not> useWebRTC (step PeerClose s)
   \<and> (peer s \<noteq> None \<longrightarrow> \<not> useWebRTC (step (Signal True) s))
   \<and> gameActive (step PeerError s) = gameActive s
   \<and> gameActive (step PeerClose s) = gameActive s
   \<and> gameActive (step (Signal fails) s) = gameActive s
   \<and> screen (step PeerError s) = screen s
   \<and> screen (step PeerClose s) = screen s
   \<and> screen (step (Signal fails) s) = screen s
   \<and> (\<not> useWebRTC s \<longrightarrow> \<not> useWebRTC (run es s))
   \<and> (\<not> useWebRTC s \<and> (\<forall>e \<in> set es. \<not> answersPeer e) \<longrightarrow> direct (run es s) = direct s)
   \<and> (\<not> peerConnected s \<and> PeerConnect \<notin> set es \<longrightarrow> direct (run es s) = direct s)
   \<and> (\<not> useWebRTC s \<longrightarrow>
      sent (movePaddles s) =
        sent s @ [Relay (PaddleMoveRelay (currentRoomCode s)
                   (if isHost s then p_y (leftPaddle (movePaddles s))
                    else p_y (rightPaddle (movePaddles s))))] \<and>
      sent (hostStep r s) =
        sent s @ [Relay (BallMove (currentRoomCode s) (net_ball (hostStep r s))
                   (leftScore (hostStep r s)) (rightScore (hostStep r s)))])"
proof -
  have a: "\<not> useWebRTC (step PeerError s) \<and> \<not> useWebRTC (step PeerClose s)
     \<and> (peer s \<noteq> None \<longrightarrow> \<not> useWebRTC (step (Signal True) s))"
    by (simp add: on_peer_error_def on_peer_close_def on_webrtcSignal_def)
  have b: "gameActive (step PeerError s) = gameActive s
     \<and> gameActive (step PeerClose s) = gameActive s
     \<and> gameActive (step (Signal fails) s) = gameActive s"
    by (simp add: on_peer_error_def on_peer_close_def on_webrtcSignal_def)
  have c: "screen (step PeerError s) = screen s
     \<and> screen (step PeerClose s) = screen s
     \<and> screen (step (Signal fails) s) = screen s"
    by (simp add: on_peer_error_def on_peer_close_def on_webrtcSignal_def)
  have d: "\<not> useWebRTC s \<longrightarrow> \<not> useWebRTC (run es s)"
    by (simp add: run_useWebRTC)
  have e: "\<not> useWebRTC s \<and> (\<forall>e \<in> set es. \<not> answersPeer e) \<longrightarrow> direct (run es s) = direct s"
    using run_direct_fallback by blast
  have f: "\<not> peerConnected s \<and> PeerConnect \<notin> set es \<longrightarrow> direct (run es s) = direct s"
    using run_direct_unconnected by blast
  have g: "\<not> useWebRTC s \<longrightarrow>
      sent (movePaddles s) =
        sent s @ [Relay (PaddleMoveRelay (currentRoomCode s)
                   (if isHost s then p_y (leftPaddle (movePaddles s))
                    else p_y (rightPaddle (movePaddles s))))] \<and>
      sent (hostStep r s) =
        sent s @ [Relay (BallMove (currentRoomCode s) (net_ball (hostStep r s))
                   (leftScore (hostStep r s)) (rightScore (hostStep r s)))]"
    using movePaddles_relay [of s] hostStep_relay [of s r] by blast
  from a b c d e f g show ?thesis by blast
qed

lemma later_quiet: "\<forall>e \<in> set later. \<not> answersPeer e" "PeerConnect \<notin> set later"
  by (simp_all add: later_def answersPeer_def)

lemma fallen_frame:
  "sent (step (Frame 0) fallen) =
     [Relay (PaddleMoveRelay (Some ''ROOM'') 250),
      Relay (BallMove (Some ''ROOM'') \<lparr>b_x = 395, b_y = 295, b_dx = -5, b_dy = -5, b_speed = 5\<rparr> 0 0)]"
  by (simp add: fallen_def hosting_fields on_webrtcSignal_def gameLoop_def update_def hostStep_def
      checkWin_def movePaddles_def keepInBounds_def winningScore_def net_eval)

theorem fallback_permanent_witness:
  "peer hosting \<noteq> None \<and> useWebRTC hosting \<and> gameActive hosting
   \<and> \<not> useWebRTC fallen \<and> gameActive fallen \<and> screen fallen = GameScreen
   \<and> \<not> useWebRTC (run later fallen) \<and> direct (run later fallen) = []
   \<and> \<not> peerConnected (step PeerError hosting)
   \<and> direct (run later (step PeerError hosting)) = []
   \<and> sent (movePaddles fallen) = [Relay (PaddleMoveRelay (Some ''ROOM'') 250)]"
proof -
  have p: "\<not> peerConnected (step PeerError hosting)" "direct (step PeerError hosting) = []"
    by (simp_all add: on_peer_error_def direct_def hosting_fields)
  have d: "direct fallen = []" by (simp add: direct_def fallen_fields)
  show ?thesis
    using fallback_permanent [where s = hosting and fails = True and es = later and r = 0]
      fallback_permanent [where s = fallen and fails = True and es = later and r = 0]
      fallback_permanent [where s = "step PeerError hosting" and fails = True and es = later and r = 0]
      later_quiet p d
    by (simp add: hosting_fields fallen_fields fallen_def [symmetric] movePaddles_paddles
        keepInBounds_def page_def paddleHeight_def)
qed

section \<open>The claims about both variants\<close>

lemma restitution_clamp:
  fixes a :: real
  assumes "0 < a"
  shows "0 < min (max (a * 1.03) minSpeed) maxSpeed"
    and "a < maxSpeed \<Longrightarrow> a < min (max (a * 1.03) minSpeed) maxSpeed"
  using assms by (auto simp add: minSpeed_def maxSpeed_def min_def max_def)

lemma rallySpeed_bounds: "14 < rallySpeed" "rallySpeed < 15" "15 < rallySpeed * 1.05"
  by (simp_all add: rallySpeed_def power_divide)

lemma fast_ball_fields:
  "isHost fast_ball" "gameActive fast_ball" "canvas fast_ball = page"
  "leftPaddle fast_ball = \<lparr>p_x = 50, p_y = 250, p_dy = 0, p_speed = 8\<rparr>"
  "rightPaddle fast_ball = \<lparr>p_x = 735, p_y = 250, p_dy = 0, p_speed = 8\<rparr>"
  "net_ball fast_ball = \<lparr>b_x = 70, b_y = 300, b_dx = - rallySpeed, b_dy = 0, b_speed = 5\<rparr>"
  by (simp_all add: fast_ball_def hosting_fields)

lemma fast_ball_speeds: "hostBallSpeeds (net_ball fast_ball)"
  using rallySpeed_bounds by (simp add: fast_ball_fields hostBallSpeeds_def)

lemma fast_ball_hit:
  "b_dx (net_ball (checkCollisions 0 (moveBall fast_ball))) = rallySpeed * 1.05"
proof -
  let ?m = "moveBall fast_ball"
  have m: "net_ball ?m = \<lparr>b_x = 70 - rallySpeed, b_y = 300, b_dx = - rallySpeed, b_dy = 0, b_speed = 5\<rparr>"
    by (simp add: moveBall_def fast_ball_fields)
  have "b_dx (net_ball (checkCollisions 0 ?m)) =
          (if \<bar>b_dx (net_ball ?m)\<bar> < 15 then - b_dx (net_ball ?m) * 1.05 else - b_dx (net_ball ?m))"
    using rallySpeed_bounds
    by (intro checkCollisions_left_hit)
       (simp_all add: m fast_ball_fields page_def paddleWidth_def paddleHeight_def ballSize_def)
  then show ?thesis using rallySpeed_bounds by (simp add: m)
qed

lemma leaving_point:
  "vx (ballSpeed (updateBall 0 leaving)) = 0"
  using updateBall_point_player(3) [of leaving 0] by (simp add: leaving_fields)

subsection \<open>Speed limits\<close>

text \<open>
  C2, as stated, fails in two ways. In the single-player game a frame in which
  the ball in play crosses a far line ends with both speeds reset to zero,
  below \<open>minSpeed\<close>. In the networked game the simulation step has no speed
  normalisation: the hit code speeds the ball up whenever its longitudinal
  magnitude is below 15, so the twenty-third hit of a rally takes it from
  \<open>rallySpeed < 15\<close> to \<open>rallySpeed * 1.05 > 15\<close>.
\<close>

theorem speed_bounds_counterexample:
  "ballInPlay leaving \<and> \<not> minSpeed \<le> \<bar>vx (ballSpeed (updateBall 0 leaving))\<bar>
   \<and> isHost fast_ball \<and> gameActive fast_ball \<and> hostBallSpeeds (net_ball fast_ball)
   \<and> \<not> \<bar>b_dx (net_ball (checkCollisions 0 (moveBall fast_ball)))\<bar> \<le> speedCap"
  using rallySpeed_bounds
  by (simp add: leaving_fields leaving_point minSpeed_def fast_ball_fields(1,2) fast_ball_speeds
      fast_ball_hit speedCap_def)

lemma frame_speeds:
  assumes "hostBallSpeeds (net_ball c)"
  shows "hostBallSpeeds (net_ball (step (Frame r) c))"
proof (cases "gameActive c \<and> isHost c")
  case True
  have "hostBallSpeeds (net_ball (movePaddles c))" using assms by simp
  then have "hostBallSpeeds (net_ball (checkCollisions r (moveBall (movePaddles c))))"
    by (rule hostStep_speeds)
  then show ?thesis using True by (simp add: gameLoop_def update_host)
next
  case False
  then show ?thesis using assms by (auto simp add: gameLoop_def update_guest)
qed

text \<open>
  C2, amended. Single-player: in every state of a game in which the ball is in
  play (so after every frame that leaves it in play) the longitudinal speed
  magnitude lies in \<open>[minSpeed, maxSpeed]\<close> and the transverse one in
  \<open>[0, maxSpeed * 0.6]\<close>; this is what one ball update establishes from any
  non-zero longitudinal speed. Networked: the host's step does not normalise;
  from the serve speed 5 the ball's longitudinal magnitude stays in
  \<open>[5, 15.75)\<close>, which exceeds the cap 15 tested by the hit code, and the
  transverse magnitude stays within 6.5 (\<open>hostBallSpeeds\<close>). This holds after
  \<open>resetGameState\<close> and is kept by the simulation step and by every frame.
\<close>

theorem speed_bounds:
  "(reachable s \<and> ballInPlay s \<longrightarrow>
      minSpeed \<le> \<bar>vx (ballSpeed s)\<bar> \<and> \<bar>vx (ballSpeed s)\<bar> \<le> maxSpeed \<and>
      \<bar>vz (ballSpeed s)\<bar> \<le> maxSpeed * 0.6)
   \<and> (ballInPlay s \<and> vx (ballSpeed s) \<noteq> 0 \<and> ballInPlay (updateBall r s) \<longrightarrow>
      minSpeed \<le> \<bar>vx (ballSpeed (updateBall r s))\<bar> \<and>
      \<bar>vx (ballSpeed (updateBall r s))\<bar> \<le> maxSpeed \<and>
      \<bar>vz (ballSpeed (updateBall r s))\<bar> \<le> maxSpeed * 0.6)
   \<and> hostBallSpeeds (net_ball (resetGameState r1 r2 c))
   \<and> (hostBallSpeeds (net_ball c) \<longrightarrow> hostBallSpeeds (net_ball (checkCollisions r (moveBall c))))
   \<and> (hostBallSpeeds (net_ball c) \<longrightarrow> hostBallSpeeds (net_ball (step (Frame r) c)))"
proof -
  have a: "reachable s \<and> ballInPlay s \<longrightarrow>
      minSpeed \<le> \<bar>vx (ballSpeed s)\<bar> \<and> \<bar>vx (ballSpeed s)\<bar> \<le> maxSpeed \<and>
      \<bar>vz (ballSpeed s)\<bar> \<le> maxSpeed * 0.6"
    using reachable_speeds [of s] by (simp add: maxVerticalSpeed_def)
  have b: "ballInPlay s \<and> vx (ballSpeed s) \<noteq> 0 \<and> ballInPlay (updateBall r s) \<longrightarrow>
      minSpeed \<le> \<bar>vx (ballSpeed (updateBall r s))\<bar> \<and>
      \<bar>vx (ballSpeed (updateBall r s))\<bar> \<le> maxSpeed \<and>
      \<bar>vz (ballSpeed (updateBall r s))\<bar> \<le> maxSpeed * 0.6"
    using updateBall_bounds [of s r] by (simp add: maxVerticalSpeed_def)
  have c: "hostBallSpeeds (net_ball (resetGameState r1 r2 c))"
    by (rule resetGameState_speeds)
  have d: "hostBallSpeeds (net_ball c) \<longrightarrow> hostBallSpeeds (net_ball (checkCollisions r (moveBall c)))"
    using hostStep_speeds by blast
  have e: "hostBallSpeeds (net_ball c) \<longrightarrow> hostBallSpeeds (net_ball (step (Frame r) c))"
    using frame_speeds by blast
  from a b c d e show ?thesis by blast
qed

lemma hosting_speeds: "hostBallSpeeds (net_ball hosting)"
  by (simp add: hosting_fields hostBallSpeeds_def)

theorem speed_bounds_witness:
  "reachable served \<and> ballInPlay served \<and> vx (ballSpeed served) = 0.2
   \<and> minSpeed \<le> \<bar>vx (ballSpeed served)\<bar> \<and> \<bar>vx (ballSpeed served)\<bar> \<le> maxSpeed
   \<and> ballInPlay (updateBall 0 served)
   \<and> minSpeed \<le> \<bar>vx (ballSpeed (updateBall 0 served))\<bar>
   \<and> \<bar>vx (ballSpeed (updateBall 0 served))\<bar> \<le> maxSpeed
   \<and> hostBallSpeeds (net_ball hosting)
   \<and> hostBallSpeeds (net_ball (checkCollisions 0 (moveBall hosting)))
   \<and> hostBallSpeeds (net_ball (step (Frame 0) hosting))"
proof -
  have p: "ballInPlay (updateBall 0 served)"
    by (simp add: served_fields sp_eval)
  show ?thesis
    using speed_bounds [of served 0 0 0 hosting] p served_reachable hosting_speeds
    by (simp add: served_fields)
qed

lemma out_left_fields:
  "canvas out_left = page" "leftScore out_left = 0" "rightScore out_left = 0"
  "leftPaddle out_left = \<lparr>p_x = 50, p_y = 250, p_dy = 0, p_speed = 8\<rparr>"
  "rightPaddle out_left = \<lparr>p_x = 735, p_y = 250, p_dy = 0, p_speed = 8\<rparr>"
  "net_ball out_left = \<lparr>b_x = 4, b_y = 50, b_dx = -5, b_dy = 0, b_speed = 5\<rparr>"
  by (simp_all add: out_left_def hosting_fields)

lemma out_right_fields:
  "canvas out_right = page" "leftScore out_right = 0" "rightScore out_right = 0"
  "leftPaddle out_right = \<lparr>p_x = 50, p_y = 250, p_dy = 0, p_speed = 8\<rparr>"
  "rightPaddle out_right = \<lparr>p_x = 735, p_y = 250, p_dy = 0, p_speed = 8\<rparr>"
  "net_ball out_right = \<lparr>b_x = 799, b_y = 50, b_dx = 5, b_dy = 0, b_speed = 5\<rparr>"
  by (simp_all add: out_right_def hosting_fields)


lemma at_left_paddle_fields:
  "canvas at_left_paddle = page"
  "leftPaddle at_left_paddle = \<lparr>p_x = 50, p_y = 250, p_dy = 0, p_speed = 8\<rparr>"
  "rightPaddle at_left_paddle = \<lparr>p_x = 735, p_y = 250, p_dy = 0, p_speed = 8\<rparr>"
  "net_ball at_left_paddle = \<lparr>b_x = 68, b_y = 300, b_dx = -5, b_dy = 0, b_speed = 5\<rparr>"
  by (simp_all add: at_left_paddle_def hosting_fields)

lemma at_right_paddle_fields:
  "canvas at_right_paddle = page"
  "leftPaddle at_right_paddle = \<lparr>p_x = 50, p_y = 250, p_dy = 0, p_speed = 8\<rparr>"
  "rightPaddle at_right_paddle = \<lparr>p_x = 735, p_y = 250, p_dy = 0, p_speed = 8\<rparr>"
  "net_ball at_right_paddle = \<lparr>b_x = 717, b_y = 300, b_dx = 5, b_dy = 0, b_speed = 5\<rparr>"
  by (simp_all add: at_right_paddle_def hosting_fields)

lemmas step_eval =
  page_def moveBall_def checkCollisions_def wallCollision_def leftPaddleCollision_def
  rightPaddleCollision_def outOfBounds_def resetBall_net_def paddleHit_def Let_def
  paddleHeight_def paddleWidth_def ballSize_def

subsection \<open>Points\<close>

text \<open>
  C3, as stated, fails in the networked game: the host counts the point, but
  \<open>resetBall\<close> puts the ball back at the centre with speed 5 in both
  directions; there is no serve-pending state and the velocity is not zero.
\<close>

theorem scoring_reset_counterexample:
  "b_x (net_ball (moveBall out_left)) < 0
   \<and> rightScore (checkCollisions 0 (moveBall out_left)) = rightScore out_left + 1
   \<and> b_dx (net_ball (checkCollisions 0 (moveBall out_left))) = 5
   \<and> b_dy (net_ball (checkCollisions 0 (moveBall out_left))) = -5"
  by (simp add: out_left_fields step_eval)

text \<open>
  C3, amended. Single-player: in a frame in which the ball in play moves beyond
  \<open>x = 10\<close> (beyond \<open>x = -10\<close>), the player's (the AI's) score grows by exactly
  one, the other score is unchanged, and the ball is reset to the serve-pending
  state: docked at \<open>x = -8\<close> at the player's paddle, zero velocity, out of play.
  Networked, for the state \<open>c\<close> the collision test sees after the ball has
  moved: when the ball's \<open>x\<close> is below 0 (above the canvas width), the right
  (left) score grows by exactly one, the other is unchanged, and the ball is
  put back at the centre and relaunched at once: longitudinal velocity
  \<open>ball.speed\<close> towards the side that scored, transverse velocity of the same
  magnitude with a random sign.
\<close>

theorem scoring_reset:
  "(ballInPlay s \<and> 10 < vx (ball s) + vx (ballSpeed s) \<longrightarrow>
      score (updateBall r s) = (score s)\<lparr>player := player (score s) + 1\<rparr> \<and>
      ball (updateBall r s) = \<lparr>vx = -8, vy = 1, vz = vz (paddle1 s)\<rparr> \<and>
      vx (ballSpeed (updateBall r s)) = 0 \<and> vz (ballSpeed (updateBall r s)) = 0 \<and>
      \<not> ballInPlay (updateBall r s))
   \<and> (ballInPlay s \<and> vx (ball s) + vx (ballSpeed s) < -10 \<longrightarrow>
      score (updateBall r s) = (score s)\<lparr>ai := ai (score s) + 1\<rparr> \<and>
      ball (updateBall r s) = \<lparr>vx = -8, vy = 1, vz = vz (paddle1 s)\<rparr> \<and>
      vx (ballSpeed (updateBall r s)) = 0 \<and> vz (ballSpeed (updateBall r s)) = 0 \<and>
      \<not> ballInPlay (updateBall r s))
   \<and> (b_x (net_ball c) < 0 \<longrightarrow>
      rightScore (checkCollisions r c) = rightScore c + 1 \<and>
      leftScore (checkCollisions r c) = leftScore c \<and>
      b_x (net_ball (checkCollisions r c)) = width (canvas c) / 2 \<and>
      b_y (net_ball (checkCollisions r c)) = height (canvas c) / 2 \<and>
      b_dx (net_ball (checkCollisions r c)) = b_speed (net_ball c) \<and>
      \<bar>b_dy (net_ball (checkCollisions r c))\<bar> = \<bar>b_speed (net_ball c)\<bar>)
   \<and> (width (canvas c) < b_x (net_ball c) \<and> 0 \<le> b_x (net_ball c) \<longrightarrow>
      leftScore (checkCollisions r c) = leftScore c + 1 \<and>
      rightScore (checkCollisions r c) = rightScore c \<and>
      b_x (net_ball (checkCollisions r c)) = width (canvas c) / 2 \<and>
      b_y (net_ball (checkCollisions r c)) = height (canvas c) / 2 \<and>
      b_dx (net_ball (checkCollisions r c)) = - b_speed (net_ball c) \<and>
      \<bar>b_dy (net_ball (checkCollisions r c))\<bar> = \<bar>b_speed (net_ball c)\<bar>)"
proof -
  have a: "ballInPlay s \<and> 10 < vx (ball s) + vx (ballSpeed s) \<longrightarrow>
      score (updateBall r s) = (score s)\<lparr>player := player (score s) + 1\<rparr> \<and>
      ball (updateBall r s) = \<lparr>vx = -8, vy = 1, vz = vz (paddle1 s)\<rparr> \<and>
      vx (ballSpeed (updateBall r s)) = 0 \<and> vz (ballSpeed (updateBall r s)) = 0 \<and>
      \<not> ballInPlay (updateBall r s)"
    using updateBall_point_player [of s r] by blast
  have b: "ballInPlay s \<and> vx (ball s) + vx (ballSpeed s) < -10 \<longrightarrow>
      score (updateBall r s) = (score s)\<lparr>ai := ai (score s) + 1\<rparr> \<and>
      ball (updateBall r s) = \<lparr>vx = -8, vy = 1, vz = vz (paddle1 s)\<rparr> \<and>
      vx (ballSpeed (updateBall r s)) = 0 \<and> vz (ballSpeed (updateBall r s)) = 0 \<and>
      \<not> ballInPlay (updateBall r s)"
    using updateBall_point_ai [of s r] by blast
  have c: "b_x (net_ball c) < 0 \<longrightarrow>
      rightScore (checkCollisions r c) = rightScore c + 1 \<and>
      leftScore (checkCollisions r c) = leftScore c \<and>
      b_x (net_ball (checkCollisions r c)) = width (canvas c) / 2 \<and>
      b_y (net_ball (checkCollisions r c)) = height (canvas c) / 2 \<and>
      b_dx (net_ball (checkCollisions r c)) = b_speed (net_ball c) \<and>
      \<bar>b_dy (net_ball (checkCollisions r c))\<bar> = \<bar>b_speed (net_ball c)\<bar>"
    by (simp add: checkCollisions_point_right)
  have d: "width (canvas c) < b_x (net_ball c) \<and> 0 \<le> b_x (net_ball c) \<longrightarrow>
      leftScore (checkCollisions r c) = leftScore c + 1 \<and>
      rightScore (checkCollisions r c) = rightScore c \<and>
      b_x (net_ball (checkCollisions r c)) = width (canvas c) / 2 \<and>
      b_y (net_ball (checkCollisions r c)) = height (canvas c) / 2 \<and>
      b_dx (net_ball (checkCollisions r c)) = - b_speed (net_ball c) \<and>
      \<bar>b_dy (net_ball (checkCollisions r c))\<bar> = \<bar>b_speed (net_ball c)\<bar>"
    by (simp add: checkCollisions_point_left)
  from a b c d show ?thesis by blast
qed

theorem scoring_reset_witness:
  "ballInPlay leaving \<and> 10 < vx (ball leaving) + vx (ballSpeed leaving)
   \<and> score (updateBall 0 leaving) = \<lparr>player = 1, ai = 0\<rparr>
   \<and> ball (updateBall 0 leaving) = \<lparr>vx = -8, vy = 1, vz = 0\<rparr>
   \<and> \<not> ballInPlay (updateBall 0 leaving)
   \<and> ballInPlay leaving_back \<and> vx (ball leaving_back) + vx (ballSpeed leaving_back) < -10
   \<and> score (updateBall 0 leaving_back) = \<lparr>player = 0, ai = 1\<rparr>
   \<and> vx (ballSpeed (updateBall 0 leaving_back)) = 0
   \<and> b_x (net_ball (moveBall out_left)) < 0
   \<and> rightScore (checkCollisions 0 (moveBall out_left)) = 1
   \<and> leftScore (checkCollisions 0 (moveBall out_left)) = 0
   \<and> b_x (net_ball (checkCollisions 0 (moveBall out_left))) = 400
   \<and> b_dx (net_ball (checkCollisions 0 (moveBall out_left))) = 5
   \<and> width (canvas (moveBall out_right)) < b_x (net_ball (moveBall out_right))
   \<and> leftScore (checkCollisions 0 (moveBall out_right)) = 1
   \<and> b_dx (net_ball (checkCollisions 0 (moveBall out_right))) = -5"
  using scoring_reset [of leaving 0 "moveBall out_left"]
    scoring_reset [of leaving_back 0 "moveBall out_right"]
  by (simp add: leaving_fields leaving_back_fields out_left_fields out_right_fields page_def)

lemma at_net_fields:
  "ballInPlay at_net"
  "ballSpeed at_net = \<lparr>vx = 0.3, vy = 0, vz = 0.1\<rparr>"
  "ball at_net = \<lparr>vx = 8.6, vy = 1, vz = 0.4\<rparr>"
  "paddle2 at_net = \<lparr>vx = 9, vy = 1, vz = 0\<rparr>"
  by (simp_all add: at_net_def served_fields)

subsection \<open>Paddle hits\<close>

text \<open>
  C4, as stated, fails in the single-player game: the hit test does not look at
  the ball's direction. A ball hit at \<open>x = -9.1\<close> leaves with speed \<open>0.206\<close>
  and is still inside the band \<open>[-9.2, -8.8]\<close> after the next move, where it is
  hit a second time: the speed grows again and its sign does not flip.
\<close>

theorem hit_reflection_counterexample:
  "ballInPlay (updateBall 0 grazed)
   \<and> vx (ball (updateBall 0 grazed)) + vx (ballSpeed (updateBall 0 grazed)) \<le> -8.8
   \<and> -9.2 \<le> vx (ball (updateBall 0 grazed)) + vx (ballSpeed (updateBall 0 grazed))
   \<and> \<bar>vz (ball (updateBall 0 grazed)) + vz (ballSpeed (updateBall 0 grazed))
        - vz (paddle1 (updateBall 0 grazed))\<bar> < paddleHitbox
   \<and> vx (ballSpeed (updateBall 0 grazed)) = 0.206
   \<and> vx (ballSpeed (updateBall 0 (updateBall 0 grazed))) = 0.21218"
  by (simp add: grazed_once grazed_twice grazed_fields paddleHitbox_def)

lemma player_hit_away:
  assumes "ballInPlay s"
    and "vx (ball s) + vx (ballSpeed s) \<le> -8.8" and "-9.2 \<le> vx (ball s) + vx (ballSpeed s)"
    and "\<bar>vz (ball s) + vz (ballSpeed s) - vz (paddle1 s)\<bar> < paddleHitbox"
    and "vx (ballSpeed s) \<noteq> 0"
  shows "vx (ballSpeed (updateBall r s)) = min (max (\<bar>vx (ballSpeed s)\<bar> * 1.03) minSpeed) maxSpeed"
    and "0 < vx (ballSpeed (updateBall r s))"
    and "\<bar>vx (ballSpeed s)\<bar> < maxSpeed \<longrightarrow> \<bar>vx (ballSpeed s)\<bar> < vx (ballSpeed (updateBall r s))"
proof -
  have p: "0 < \<bar>vx (ballSpeed s)\<bar>" using assms(5) by simp
  show e: "vx (ballSpeed (updateBall r s)) = min (max (\<bar>vx (ballSpeed s)\<bar> * 1.03) minSpeed) maxSpeed"
    using assms by (rule updateBall_player_hit)
  show "0 < vx (ballSpeed (updateBall r s))"
    unfolding e using p by (rule restitution_clamp(1))
  show "\<bar>vx (ballSpeed s)\<bar> < maxSpeed \<longrightarrow> \<bar>vx (ballSpeed s)\<bar> < vx (ballSpeed (updateBall r s))"
    unfolding e using restitution_clamp(2) [OF p] by blast
qed

lemma ai_hit_away:
  assumes "ballInPlay s"
    and "8.8 \<le> vx (ball s) + vx (ballSpeed s)" and "vx (ball s) + vx (ballSpeed s) \<le> 9.2"
    and "\<bar>vz (ball s) + vz (ballSpeed s) - vz (paddle2 s)\<bar> < paddleHitbox"
    and "vx (ballSpeed s) \<noteq> 0"
  shows "vx (ballSpeed (updateBall r s)) = - min (max (\<bar>vx (ballSpeed s)\<bar> * 1.03) minSpeed) maxSpeed"
    and "vx (ballSpeed (updateBall r s)) < 0"
    and "\<bar>vx (ballSpeed s)\<bar> < maxSpeed \<longrightarrow> \<bar>vx (ballSpeed s)\<bar> < - vx (ballSpeed (updateBall r s))"
proof -
  have p: "0 < \<bar>vx (ballSpeed s)\<bar>" using assms(5) by simp
  show e: "vx (ballSpeed (updateBall r s)) = - min (max (\<bar>vx (ballSpeed s)\<bar> * 1.03) minSpeed) maxSpeed"
    using assms by (rule updateBall_ai_hit)
  show "vx (ballSpeed (updateBall r s)) < 0"
    unfolding e using restitution_clamp(1) [OF p] by simp
  show "\<bar>vx (ballSpeed s)\<bar> < maxSpeed \<longrightarrow> \<bar>vx (ballSpeed s)\<bar> < - vx (ballSpeed (updateBall r s))"
    unfolding e using restitution_clamp(2) [OF p] by simp
qed

lemma leftPaddleCollision_hit:
  assumes "b_x (net_ball s) \<le> p_x (leftPaddle s) + paddleWidth"
    and "b_y (net_ball s) + ballSize \<ge> p_y (leftPaddle s)"
    and "b_y (net_ball s) \<le> p_y (leftPaddle s) + paddleHeight"
    and "b_dx (net_ball s) < 0"
  shows "b_dx (net_ball (leftPaddleCollision (wallCollision s))) =
           (if \<bar>b_dx (net_ball s)\<bar> < 15 then - b_dx (net_ball s) * 1.05 else - b_dx (net_ball s))"
  using assms by (simp add: leftPaddleCollision_def)

lemma rightPaddleCollision_hit:
  assumes "b_x (net_ball s) + ballSize \<ge> p_x (rightPaddle s)"
    and "b_y (net_ball s) + ballSize \<ge> p_y (rightPaddle s)"
    and "b_y (net_ball s) \<le> p_y (rightPaddle s) + paddleHeight"
    and "b_dx (net_ball s) > 0"
  shows "b_dx (net_ball (rightPaddleCollision (leftPaddleCollision (wallCollision s)))) =
           (if \<bar>b_dx (net_ball s)\<bar> < 15 then - b_dx (net_ball s) * 1.05 else - b_dx (net_ball s))"
proof -
  have l: "leftPaddleCollision (wallCollision s) = wallCollision s"
    using assms(4) by (simp add: leftPaddleCollision_def)
  show ?thesis using assms by (simp add: l rightPaddleCollision_def)
qed

lemma speedup_flips:
  fixes d :: real
  assumes "d < 0"
  shows "0 < (if \<bar>d\<bar> < speedCap then - d * 1.05 else - d)"
    and "\<bar>d\<bar> < speedCap \<longrightarrow> \<bar>d\<bar> < (if \<bar>d\<bar> < speedCap then - d * 1.05 else - d)"
  using assms by (auto simp add: speedCap_def)

lemma speedup_flips_back:
  fixes d :: real
  assumes "0 < d"
  shows "(if \<bar>d\<bar> < speedCap then - d * 1.05 else - d) < 0"
    and "\<bar>d\<bar> < speedCap \<longrightarrow> \<bar>d\<bar> < - (if \<bar>d\<bar> < speedCap then - d * 1.05 else - d)"
  using assms by (auto simp add: speedCap_def)

lemma checkCollisions_left_end:
  assumes "b_x (net_ball s) + ballSize < p_x (rightPaddle s)"
    and "0 \<le> b_x (net_ball s)" and "b_x (net_ball s) \<le> width (canvas s)"
  shows "net_ball (checkCollisions r s) = net_ball (leftPaddleCollision (wallCollision s))"
proof -
  let ?l = "leftPaddleCollision (wallCollision s)"
  have r: "rightPaddleCollision ?l = ?l"
    using assms(1) by (simp add: rightPaddleCollision_def)
  have o: "outOfBounds r ?l = ?l"
    using assms(2,3) by (simp add: outOfBounds_inside)
  show ?thesis by (simp add: checkCollisions_def r o)
qed

lemma checkCollisions_right_end:
  assumes "0 \<le> b_x (net_ball s)" and "b_x (net_ball s) \<le> width (canvas s)"
  shows "net_ball (checkCollisions r s) =
           net_ball (rightPaddleCollision (leftPaddleCollision (wallCollision s)))"
proof -
  let ?q = "rightPaddleCollision (leftPaddleCollision (wallCollision s))"
  have o: "outOfBounds r ?q = ?q"
    using assms by (simp add: outOfBounds_inside)
  show ?thesis by (simp add: checkCollisions_def o)
qed

lemma behind_line_fields:
  "canvas behind_line = page"
  "leftPaddle behind_line = \<lparr>p_x = 50, p_y = 250, p_dy = 0, p_speed = 8\<rparr>"
  "rightPaddle behind_line = \<lparr>p_x = 735, p_y = 250, p_dy = 0, p_speed = 8\<rparr>"
  "net_ball behind_line = \<lparr>b_x = 4, b_y = 300, b_dx = -5, b_dy = 0, b_speed = 5\<rparr>"
  by (simp_all add: behind_line_def hosting_fields)

lemma behind_line_hit:
  "b_x (net_ball (moveBall behind_line)) = -1"
  "b_dx (net_ball (leftPaddleCollision (wallCollision (moveBall behind_line)))) = 5.25"
  "b_dx (net_ball (checkCollisions 0 (moveBall behind_line))) = 5"
  by (simp_all add: behind_line_fields step_eval)

text \<open>
  C4, amended. On every valid hit the hit block sends the ball away from the
  paddle that was hit, which is a sign flip whenever the ball was approaching.
  Single-player (a ball in play with non-zero speed that is inside a paddle's
  band and hitbox after its move): the frame ends with a longitudinal speed of
  \<open>1.03\<close> times the old magnitude, clamped into \<open>[minSpeed, maxSpeed]\<close>,
  positive at the player's paddle and negative at the AI's; the magnitude
  strictly increases whenever it was below \<open>maxSpeed\<close>. Networked (\<open>c\<close> is the
  state the collision test sees; the hit test requires an approaching ball):
  for every state that passes the hit test of a paddle, the hit block negates
  the velocity and multiplies it by \<open>1.05\<close> when its magnitude was below the
  cap 15, so the sign flips and the magnitude strictly increases below the cap.
  That is the ball of the end of the step whenever the ball is on the court
  (\<open>0 \<le> x \<le> width\<close>, so no point is scored in the step) and, for the left
  paddle's block, not at the right paddle as well. The hit test has no bound on
  the side of the goal line: a ball behind the line is hit and then scored
  (\<open>behind_line_hit\<close>).
\<close>

theorem hit_reflection:
  "(ballInPlay s \<and> vx (ball s) + vx (ballSpeed s) \<le> -8.8 \<and> -9.2 \<le> vx (ball s) + vx (ballSpeed s) \<and>
    \<bar>vz (ball s) + vz (ballSpeed s) - vz (paddle1 s)\<bar> < paddleHitbox \<and> vx (ballSpeed s) \<noteq> 0 \<longrightarrow>
      vx (ballSpeed (updateBall r s)) = min (max (\<bar>vx (ballSpeed s)\<bar> * 1.03) minSpeed) maxSpeed \<and>
      0 < vx (ballSpeed (updateBall r s)) \<and>
      (\<bar>vx (ballSpeed s)\<bar> < maxSpeed \<longrightarrow> \<bar>vx (ballSpeed s)\<bar> < vx (ballSpeed (updateBall r s))))
   \<and> (ballInPlay s \<and> 8.8 \<le> vx (ball s) + vx (ballSpeed s) \<and> vx (ball s) + vx (ballSpeed s) \<le> 9.2 \<and>
    \<bar>vz (ball s) + vz (ballSpeed s) - vz (paddle2 s)\<bar> < paddleHitbox \<and> vx (ballSpeed s) \<noteq> 0 \<longrightarrow>
      vx (ballSpeed (updateBall r s)) = - min (max (\<bar>vx (ballSpeed s)\<bar> * 1.03) minSpeed) maxSpeed \<and>
      vx (ballSpeed (updateBall r s)) < 0 \<and>
      (\<bar>vx (ballSpeed s)\<bar> < maxSpeed \<longrightarrow> \<bar>vx (ballSpeed s)\<bar> < - vx (ballSpeed (updateBall r s))))
   \<and> (b_x (net_ball c) \<le> p_x (leftPaddle c) + paddleWidth \<and>
      b_y (net_ball c) + ballSize \<ge> p_y (leftPaddle c) \<and>
      b_y (net_ball c) \<le> p_y (leftPaddle c) + paddleHeight \<and>
      b_dx (net_ball c) < 0 \<longrightarrow>
      b_dx (net_ball (leftPaddleCollision (wallCollision c))) =
        (if \<bar>b_dx (net_ball c)\<bar> < speedCap then - b_dx (net_ball c) * 1.05 else - b_dx (net_ball c)) \<and>
      0 < b_dx (net_ball (leftPaddleCollision (wallCollision c))) \<and>
      (\<bar>b_dx (net_ball c)\<bar> < speedCap \<longrightarrow>
         \<bar>b_dx (net_ball c)\<bar> < b_dx (net_ball (leftPaddleCollision (wallCollision c)))))
   \<and> (b_x (net_ball c) + ballSize \<ge> p_x (rightPaddle c) \<and>
      b_y (net_ball c) + ballSize \<ge> p_y (rightPaddle c) \<and>
      b_y (net_ball c) \<le> p_y (rightPaddle c) + paddleHeight \<and>
      b_dx (net_ball c) > 0 \<longrightarrow>
      b_dx (net_ball (rightPaddleCollision (leftPaddleCollision (wallCollision c)))) =
        (if \<bar>b_dx (net_ball c)\<bar> < speedCap then - b_dx (net_ball c) * 1.05 else - b_dx (net_ball c)) \<and>
      b_dx (net_ball (rightPaddleCollision (leftPaddleCollision (wallCollision c)))) < 0 \<and>
      (\<bar>b_dx (net_ball c)\<bar> < speedCap \<longrightarrow>
         \<bar>b_dx (net_ball c)\<bar> < - b_dx (net_ball (rightPaddleCollision (leftPaddleCollision (wallCollision c))))))
   \<and> (b_x (net_ball c) + ballSize < p_x (rightPaddle c) \<and>
      0 \<le> b_x (net_ball c) \<and> b_x (net_ball c) \<le> width (canvas c) \<longrightarrow>
      net_ball (checkCollisions r c) = net_ball (leftPaddleCollision (wallCollision c)))
   \<and> (0 \<le> b_x (net_ball c) \<and> b_x (net_ball c) \<le> width (canvas c) \<longrightarrow>
      net_ball (checkCollisions r c) =
        net_ball (rightPaddleCollision (leftPaddleCollision (wallCollision c))))"
proof -
  have a: "ballInPlay s \<and> vx (ball s) + vx (ballSpeed s) \<le> -8.8 \<and> -9.2 \<le> vx (ball s) + vx (ballSpeed s) \<and>
    \<bar>vz (ball s) + vz (ballSpeed s) - vz (paddle1 s)\<bar> < paddleHitbox \<and> vx (ballSpeed s) \<noteq> 0 \<longrightarrow>
      vx (ballSpeed (updateBall r s)) = min (max (\<bar>vx (ballSpeed s)\<bar> * 1.03) minSpeed) maxSpeed \<and>
      0 < vx (ballSpeed (updateBall r s)) \<and>
      (\<bar>vx (ballSpeed s)\<bar> < maxSpeed \<longrightarrow> \<bar>vx (ballSpeed s)\<bar> < vx (ballSpeed (updateBall r s)))"
    using player_hit_away [of s r] by blast
  have b: "ballInPlay s \<and> 8.8 \<le> vx (ball s) + vx (ballSpeed s) \<and> vx (ball s) + vx (ballSpeed s) \<le> 9.2 \<and>
    \<bar>vz (ball s) + vz (ballSpeed s) - vz (paddle2 s)\<bar> < paddleHitbox \<and> vx (ballSpeed s) \<noteq> 0 \<longrightarrow>
      vx (ballSpeed (updateBall r s)) = - min (max (\<bar>vx (ballSpeed s)\<bar> * 1.03) minSpeed) maxSpeed \<and>
      vx (ballSpeed (updateBall r s)) < 0 \<and>
      (\<bar>vx (ballSpeed s)\<bar> < maxSpeed \<longrightarrow> \<bar>vx (ballSpeed s)\<bar> < - vx (ballSpeed (updateBall r s)))"
    using ai_hit_away [of s r] by blast
  have c: "b_x (net_ball c) \<le> p_x (leftPaddle c) + paddleWidth \<and>
      b_y (net_ball c) + ballSize \<ge> p_y (leftPaddle c) \<and>
      b_y (net_ball c) \<le> p_y (leftPaddle c) + paddleHeight \<and>
      b_dx (net_ball c) < 0 \<longrightarrow>
      b_dx (net_ball (leftPaddleCollision (wallCollision c))) =
        (if \<bar>b_dx (net_ball c)\<bar> < speedCap then - b_dx (net_ball c) * 1.05 else - b_dx (net_ball c)) \<and>
      0 < b_dx (net_ball (leftPaddleCollision (wallCollision c))) \<and>
      (\<bar>b_dx (net_ball c)\<bar> < speedCap \<longrightarrow>
         \<bar>b_dx (net_ball c)\<bar> < b_dx (net_ball (leftPaddleCollision (wallCollision c))))"
  proof (intro impI)
    assume h: "b_x (net_ball c) \<le> p_x (leftPaddle c) + paddleWidth \<and>
      b_y (net_ball c) + ballSize \<ge> p_y (leftPaddle c) \<and>
      b_y (net_ball c) \<le> p_y (leftPaddle c) + paddleHeight \<and>
      b_dx (net_ball c) < 0"
    then have e: "b_dx (net_ball (leftPaddleCollision (wallCollision c))) =
        (if \<bar>b_dx (net_ball c)\<bar> < speedCap then - b_dx (net_ball c) * 1.05 else - b_dx (net_ball c))"
      using leftPaddleCollision_hit [of c] by (simp add: speedCap_def)
    from h have n: "b_dx (net_ball c) < 0" by simp
    show "b_dx (net_ball (leftPaddleCollision (wallCollision c))) =
        (if \<bar>b_dx (net_ball c)\<bar> < speedCap then - b_dx (net_ball c) * 1.05 else - b_dx (net_ball c)) \<and>
      0 < b_dx (net_ball (leftPaddleCollision (wallCollision c))) \<and>
      (\<bar>b_dx (net_ball c)\<bar> < speedCap \<longrightarrow>
         \<bar>b_dx (net_ball c)\<bar> < b_dx (net_ball (leftPaddleCollision (wallCollision c))))"
      unfolding e using speedup_flips [OF n] by blast
  qed
  have d: "b_x (net_ball c) + ballSize \<ge> p_x (rightPaddle c) \<and>
      b_y (net_ball c) + ballSize \<ge> p_y (rightPaddle c) \<and>
      b_y (net_ball c) \<le> p_y (rightPaddle c) + paddleHeight \<and>
      b_dx (net_ball c) > 0 \<longrightarrow>
      b_dx (net_ball (rightPaddleCollision (leftPaddleCollision (wallCollision c)))) =
        (if \<bar>b_dx (net_ball c)\<bar> < speedCap then - b_dx (net_ball c) * 1.05 else - b_dx (net_ball c)) \<and>
      b_dx (net_ball (rightPaddleCollision (leftPaddleCollision (wallCollision c)))) < 0 \<and>
      (\<bar>b_dx (net_ball c)\<bar> < speedCap \<longrightarrow>
         \<bar>b_dx (net_ball c)\<bar> < - b_dx (net_ball (rightPaddleCollision (leftPaddleCollision (wallCollision c)))))"
  proof (intro impI)
    assume h: "b_x (net_ball c) + ballSize \<ge> p_x (rightPaddle c) \<and>
      b_y (net_ball c) + ballSize \<ge> p_y (rightPaddle c) \<and>
      b_y (net_ball c) \<le> p_y (rightPaddle c) + paddleHeight \<and>
      b_dx (net_ball c) > 0"
    then have e: "b_dx (net_ball (rightPaddleCollision (leftPaddleCollision (wallCollision c)))) =
        (if \<bar>b_dx (net_ball c)\<bar> < speedCap then - b_dx (net_ball c) * 1.05 else - b_dx (net_ball c))"
      using rightPaddleCollision_hit [of c] by (simp add: speedCap_def)
    from h have n: "0 < b_dx (net_ball c)" by simp
    show "b_dx (net_ball (rightPaddleCollision (leftPaddleCollision (wallCollision c)))) =
        (if \<bar>b_dx (net_ball c)\<bar> < speedCap then - b_dx (net_ball c) * 1.05 else - b_dx (net_ball c)) \<and>
      b_dx (net_ball (rightPaddleCollision (leftPaddleCollision (wallCollision c)))) < 0 \<and>
      (\<bar>b_dx (net_ball c)\<bar> < speedCap \<longrightarrow>
         \<bar>b_dx (net_ball c)\<bar> < - b_dx (net_ball (rightPaddleCollision (leftPaddleCollision (wallCollision c)))))"
      unfolding e using speedup_flips_back [OF n] by blast
  qed
  have e: "b_x (net_ball c) + ballSize < p_x (rightPaddle c) \<and>
      0 \<le> b_x (net_ball c) \<and> b_x (net_ball c) \<le> width (canvas c) \<longrightarrow>
      net_ball (checkCollisions r c) = net_ball (leftPaddleCollision (wallCollision c))"
    using checkCollisions_left_end [of c r] by blast
  have f: "0 \<le> b_x (net_ball c) \<and> b_x (net_ball c) \<le> width (canvas c) \<longrightarrow>
      net_ball (checkCollisions r c) =
        net_ball (rightPaddleCollision (leftPaddleCollision (wallCollision c)))"
    using checkCollisions_right_end [of c r] by blast
  from a b c d e f show ?thesis by blast
qed

theorem hit_reflection_witness:
  "ballInPlay grazed \<and> vx (ball grazed) + vx (ballSpeed grazed) \<le> -8.8
   \<and> -9.2 \<le> vx (ball grazed) + vx (ballSpeed grazed)
   \<and> vx (ballSpeed grazed) = -0.2 \<and> vx (ballSpeed (updateBall 0 grazed)) = 0.206
   \<and> \<bar>vz (ball grazed) + vz (ballSpeed grazed) - vz (paddle1 grazed)\<bar> < paddleHitbox
   \<and> ballInPlay at_net \<and> 8.8 \<le> vx (ball at_net) + vx (ballSpeed at_net)
   \<and> vx (ball at_net) + vx (ballSpeed at_net) \<le> 9.2
   \<and> \<bar>vz (ball at_net) + vz (ballSpeed at_net) - vz (paddle2 at_net)\<bar> < paddleHitbox
   \<and> vx (ballSpeed at_net) = 0.3 \<and> vx (ballSpeed (updateBall 0 at_net)) = -0.309
   \<and> b_dx (net_ball (moveBall at_left_paddle)) = -5
   \<and> b_dx (net_ball (leftPaddleCollision (wallCollision (moveBall at_left_paddle)))) = 5.25
   \<and> b_dx (net_ball (checkCollisions 0 (moveBall at_left_paddle))) = 5.25
   \<and> b_dx (net_ball (moveBall at_right_paddle)) = 5
   \<and> b_dx (net_ball (rightPaddleCollision (leftPaddleCollision (wallCollision (moveBall at_right_paddle))))) = -5.25
   \<and> b_dx (net_ball (checkCollisions 0 (moveBall at_right_paddle))) = -5.25
   \<and> b_x (net_ball (moveBall behind_line)) < 0
   \<and> b_dx (net_ball (leftPaddleCollision (wallCollision (moveBall behind_line)))) = 5.25"
  using hit_reflection [of grazed 0 "moveBall at_left_paddle"]
    hit_reflection [of at_net 0 "moveBall at_right_paddle"]
    hit_reflection [of grazed 0 "moveBall behind_line"]
  by (simp add: grazed_fields at_net_fields at_left_paddle_fields at_right_paddle_fields
      behind_line_fields page_def paddleHitbox_def paddleWidth_def paddleHeight_def ballSize_def
      speedCap_def minSpeed_def maxSpeed_def)

subsection \<open>Wall bounces\<close>




end
